theory Spec2Isabelle
  imports Main "HOL-Library.AList"
begin

section \<open>JavaScript strings\<close>

text \<open>
  A JavaScript string is a sequence of UTF-16 code units, and \<open>length\<close>,
  \<open>substring\<close>, \<open>split\<close> and a regular expression without the \<open>u\<close> flag all
  work on code units. A string is therefore a list of code units, each a natural number
  (a real string only holds numbers below 65536; nothing below depends on the bound).
  \<open>js\<close> turns an ASCII literal into such a string.
\<close>

type_synonym jsstring = "nat list"

definition js :: "string \<Rightarrow> jsstring" where
  "js s = map of_char s"

text \<open>
  The class \<open>\s\<close> of a JavaScript regular expression, which is also what
  \<open>String.prototype.trim\<close> removes: tab, line feed, vertical tab, form feed, carriage
  return, space, no-break space, U+1680, U+2000..U+200A, U+2028, U+2029, U+202F, U+205F,
  U+3000 and U+FEFF.
\<close>

definition isWhiteSpace :: "nat \<Rightarrow> bool" where
  "isWhiteSpace c =
     (c = 9 \<or> c = 10 \<or> c = 11 \<or> c = 12 \<or> c = 13 \<or> c = 32 \<or> c = 160 \<or> c = 5760
      \<or> (8192 \<le> c \<and> c \<le> 8202) \<or> c = 8232 \<or> c = 8233 \<or> c = 8239 \<or> c = 8287
      \<or> c = 12288 \<or> c = 65279)"

definition isHyphen :: "nat \<Rightarrow> bool" where
  "isHyphen c = (c = 45)"

text \<open>The classes \<open>[a-z0-9]\<close> and \<open>[a-z0-9\s-]\<close>.\<close>

definition isLowerAlnum :: "nat \<Rightarrow> bool" where
  "isLowerAlnum c = ((97 \<le> c \<and> c \<le> 122) \<or> (48 \<le> c \<and> c \<le> 57))"

definition isSlugChar :: "nat \<Rightarrow> bool" where
  "isSlugChar c = (isLowerAlnum c \<or> isWhiteSpace c \<or> isHyphen c)"

text \<open>
  \<open>String.prototype.toLowerCase\<close>, one code unit at a time. \<open>A\<close>..\<open>Z\<close> go to
  \<open>a\<close>..\<open>z\<close>. Two code units outside ASCII have a lower-case form that reaches into
  ASCII: U+0130 (capital I with dot above) becomes \<open>i\<close> followed by U+0307, and U+212A
  (the Kelvin sign) becomes \<open>k\<close>. Every other code unit outside ASCII is kept as it is:
  its lower-case form, where it has one, is again outside ASCII and not white space, and
  the only caller below (\<open>generateFileName\<close>) deletes such code units in its next step
  whichever of the two it finds.
\<close>

definition lowerUnit :: "nat \<Rightarrow> jsstring" where
  "lowerUnit c =
     (if 65 \<le> c \<and> c \<le> 90 then [c + 32]
      else if c = 304 then [105, 775]
      else if c = 8490 then [107]
      else [c])"

definition toLowerCase :: "jsstring \<Rightarrow> jsstring" where
  "toLowerCase s = concat (map lowerUnit s)"

text \<open>
  \<open>s.replace(/[^C]/g, '')\<close> for a character class \<open>C\<close> keeps the code units in
  \<open>C\<close>. \<open>s.replace(/C+/g, r)\<close> puts \<open>r\<close> in the place of every maximal run of
  code units in \<open>C\<close>.
\<close>

definition removeOutside :: "(nat \<Rightarrow> bool) \<Rightarrow> jsstring \<Rightarrow> jsstring" where
  "removeOutside p s = filter p s"

function replaceRuns :: "(nat \<Rightarrow> bool) \<Rightarrow> jsstring \<Rightarrow> jsstring \<Rightarrow> jsstring" where
  "replaceRuns p r [] = []"
| "replaceRuns p r (c # cs) =
     (if p c then r @ replaceRuns p r (dropWhile p cs) else c # replaceRuns p r cs)"
  by pat_completeness auto
termination
  by (relation "measure (\<lambda>(p, r, s). length s)")
     (auto simp: length_dropWhile_le less_Suc_eq_le)

text \<open>\<open>String.prototype.trim\<close>: white space is removed at both ends.\<close>

definition trim :: "jsstring \<Rightarrow> jsstring" where
  "trim s = rev (dropWhile isWhiteSpace (rev (dropWhile isWhiteSpace s)))"

section \<open>File names (converter.ts, \<open>generateFileName\<close>)\<close>

text \<open>
  \<^verbatim>\<open>title.toLowerCase().replace(/[^a-z0-9\s-]/g, '').replace(/\s+/g, '-')
       .replace(/-+/g, '-').trim()\<close>
\<close>

definition generateFileName :: "jsstring \<Rightarrow> jsstring" where
  "generateFileName title =
     trim (replaceRuns isHyphen (js ''-'')
       (replaceRuns isWhiteSpace (js ''-'')
         (removeOutside isSlugChar (toLowerCase title))))"

text \<open>
  What the specification asks of a derived name at its ends: the hyphens there are
  removed. This follows the specification's words, for comparison with the code.
\<close>

definition trimHyphens :: "jsstring \<Rightarrow> jsstring" where
  "trimHyphens s = rev (dropWhile isHyphen (rev (dropWhile isHyphen s)))"

text \<open>A string has two neighbouring code units in a class.\<close>

fun adjacent :: "(nat \<Rightarrow> bool) \<Rightarrow> jsstring \<Rightarrow> bool" where
  "adjacent p [] = False"
| "adjacent p [x] = False"
| "adjacent p (x # y # zs) = ((p x \<and> p y) \<or> adjacent p (y # zs))"

section \<open>Errors\<close>

text \<open>
  Whatever the code throws is a value. \<open>TypeError\<close> is what the runtime raises when a
  property of \<open>undefined\<close> is read, \<open>RangeError\<close> what \<open>Date.prototype.toISOString\<close>
  raises on an invalid date, \<open>HttpError\<close> a request the client library rejected (with
  its status), and \<open>Error\<close> is \<open>new Error(message)\<close>. Each carries its message.
\<close>

datatype error =
    TypeError jsstring
  | RangeError jsstring
  | HttpError nat jsstring
  | Error jsstring

text \<open>\<open>error.message\<close>, and the text a template literal makes of an error.\<close>

fun errorMessage :: "error \<Rightarrow> jsstring" where
  "errorMessage (TypeError m) = m"
| "errorMessage (RangeError m) = m"
| "errorMessage (HttpError st m) = m"
| "errorMessage (Error m) = m"

fun errorString :: "error \<Rightarrow> jsstring" where
  "errorString (TypeError m) = js ''TypeError: '' @ m"
| "errorString (RangeError m) = js ''RangeError: '' @ m"
| "errorString (HttpError st m) = js ''HttpError: '' @ m"
| "errorString (Error m) = js ''Error: '' @ m"

definition cannotRead :: "string \<Rightarrow> error" where
  "cannotRead field =
     TypeError (js ''Cannot read properties of undefined (reading '' @ [39] @ js field
       @ [39] @ js '')'')"

text \<open>
  A value that is a string, \<open>null\<close> or \<open>undefined\<close> is truthy when it is a string
  and not the empty one.
\<close>

fun truthy :: "jsstring option \<Rightarrow> bool" where
  "truthy None = False"
| "truthy (Some s) = (s \<noteq> [])"

section \<open>Rich text and blocks (converter.ts, class \<open>NotionService\<close>)\<close>

text \<open>
  A rich-text item of the Notion API, with the fields the code reads:
  \<open>plain_text\<close>, the four flags of \<open>annotations\<close> it looks at, and \<open>href\<close>
  (\<open>null\<close> is \<open>None\<close>).
\<close>

record RichSpan =
  plain_text :: jsstring
  bold :: bool
  italic :: bool
  strikethrough :: bool
  code :: bool
  href :: "jsstring option"

text \<open>
  A block is an object with a \<open>type\<close> and, under the key named by its type, a
  payload. The code declares blocks as \<open>any\<close> and checks nothing, so each field it
  reads may be missing: \<open>None\<close> stands for \<open>undefined\<close>. \<open>body\<close> is the value
  of \<open>block[type]\<close> (which is \<open>block.paragraph\<close> in the case \<open>'paragraph'\<close>, and so
  on). \<open>kind\<close> is the \<open>type\<close> field of an image payload; \<open>external_url\<close>
  and \<open>file_url\<close> are its objects \<open>external\<close> and \<open>file\<close>, each given by
  its \<open>url\<close> (\<open>None\<close> when the object is missing).
\<close>

record payload =
  rich_text :: "RichSpan list option"
  language :: "jsstring option"
  caption :: "RichSpan list option"
  kind :: "jsstring option"
  external_url :: "jsstring option"
  file_url :: "jsstring option"

record block =
  btype :: jsstring
  body :: "payload option"

text \<open>The function mapped over the items in \<open>renderRichText\<close>.\<close>

definition renderSpan :: "RichSpan \<Rightarrow> jsstring" where
  "renderSpan text =
     (let content = plain_text text;
          content = (if bold text then js ''**'' @ content @ js ''**'' else content);
          content = (if italic text then js ''*'' @ content @ js ''*'' else content);
          content = (if strikethrough text then js ''~~'' @ content @ js ''~~'' else content);
          content = (if code text then js ''`'' @ content @ js ''`'' else content);
          content = (if truthy (href text)
                     then js ''['' @ content @ js '']('' @ the (href text) @ js '')''
                     else content)
      in content)"

text \<open>\<open>richText.map(...).join('')\<close>; on \<open>undefined\<close> the call of \<open>map\<close> throws.\<close>

definition renderRichText :: "RichSpan list option \<Rightarrow> error + jsstring" where
  "renderRichText richText =
     (case richText of
        None \<Rightarrow> Inl (cannotRead ''map'')
      | Some spans \<Rightarrow> Inr (concat (map renderSpan spans)))"

text \<open>
  The renderers of the block types read \<open>x.rich_text\<close> of their argument \<open>x\<close>, which
  throws when \<open>x\<close> is \<open>undefined\<close>.
\<close>

definition richTextOf :: "payload option \<Rightarrow> error + jsstring" where
  "richTextOf x =
     (case x of
        None \<Rightarrow> Inl (cannotRead ''rich_text'')
      | Some p \<Rightarrow> renderRichText (rich_text p))"

definition renderParagraph :: "payload option \<Rightarrow> error + jsstring" where
  "renderParagraph paragraph = richTextOf paragraph"

definition renderHeading :: "payload option \<Rightarrow> nat \<Rightarrow> error + jsstring" where
  "renderHeading heading level =
     (case richTextOf heading of
        Inl e \<Rightarrow> Inl e
      | Inr spans \<Rightarrow> Inr (replicate level 35 @ js '' '' @ spans))"

definition renderBulletedListItem :: "payload option \<Rightarrow> error + jsstring" where
  "renderBulletedListItem item =
     (case richTextOf item of Inl e \<Rightarrow> Inl e | Inr spans \<Rightarrow> Inr (js ''- '' @ spans))"

definition renderNumberedListItem :: "payload option \<Rightarrow> error + jsstring" where
  "renderNumberedListItem item =
     (case richTextOf item of Inl e \<Rightarrow> Inl e | Inr spans \<Rightarrow> Inr (js ''1. '' @ spans))"

definition renderCode :: "payload option \<Rightarrow> error + jsstring" where
  "renderCode c =
     (case c of
        None \<Rightarrow> Inl (cannotRead ''language'')
      | Some p \<Rightarrow>
          (let lang = (if truthy (language p) then the (language p) else [])
           in case renderRichText (rich_text p) of
                Inl e \<Rightarrow> Inl e
              | Inr content \<Rightarrow>
                  Inr (js ''```'' @ lang @ [10] @ content @ [10] @ js ''```'')))"

definition renderQuote :: "payload option \<Rightarrow> error + jsstring" where
  "renderQuote quote =
     (case richTextOf quote of Inl e \<Rightarrow> Inl e | Inr content \<Rightarrow> Inr (js ''> '' @ content))"

text \<open>
  \<^verbatim>\<open>const caption = image.caption ? this.renderRichText(image.caption) : '';
  const url = image.type === 'external' ? image.external.url : image.file.url;\<close>
  An array is truthy, also the empty one.
\<close>

definition renderImage :: "payload option \<Rightarrow> error + jsstring" where
  "renderImage img =
     (case img of
        None \<Rightarrow> Inl (cannotRead ''caption'')
      | Some p \<Rightarrow>
          (case (case caption p of None \<Rightarrow> Inr [] | Some spans \<Rightarrow> renderRichText (Some spans)) of
             Inl e \<Rightarrow> Inl e
           | Inr cap \<Rightarrow>
               (case (if kind p = Some (js ''external'') then external_url p else file_url p) of
                  None \<Rightarrow> Inl (cannotRead ''url'')
                | Some url \<Rightarrow> Inr (js ''!['' @ cap @ js '']('' @ url @ js '')''))))"

text \<open>
  \<open>convertBlockToMarkdown\<close>. \<open>blockContent\<close> is the value of the local variable
  \<open>content\<close> when the \<open>switch\<close> is left; the function returns
  \<open>content + '\n\n'\<close>. The default case renders
  \<open>block[type]?.rich_text || []\<close>, which is \<open>fallbackRichText\<close>.
\<close>

definition fallbackRichText :: "block \<Rightarrow> RichSpan list" where
  "fallbackRichText b =
     (case body b of
        None \<Rightarrow> []
      | Some p \<Rightarrow> (case rich_text p of None \<Rightarrow> [] | Some spans \<Rightarrow> spans))"

definition blockContent :: "block \<Rightarrow> error + jsstring" where
  "blockContent b =
     (if btype b = js ''paragraph'' then renderParagraph (body b)
      else if btype b = js ''heading_1'' then renderHeading (body b) 1
      else if btype b = js ''heading_2'' then renderHeading (body b) 2
      else if btype b = js ''heading_3'' then renderHeading (body b) 3
      else if btype b = js ''bulleted_list_item'' then renderBulletedListItem (body b)
      else if btype b = js ''numbered_list_item'' then renderNumberedListItem (body b)
      else if btype b = js ''code'' then renderCode (body b)
      else if btype b = js ''quote'' then renderQuote (body b)
      else if btype b = js ''image'' then renderImage (body b)
      else if btype b = js ''divider'' then Inr ([10] @ js ''---'' @ [10, 10])
      else renderRichText (Some (fallbackRichText b)))"

definition convertBlockToMarkdown :: "block \<Rightarrow> error + jsstring" where
  "convertBlockToMarkdown b =
     (case blockContent b of Inl e \<Rightarrow> Inl e | Inr content \<Rightarrow> Inr (content @ [10, 10]))"

text \<open>\<open>convertBlocksToMarkdown\<close>: the loop \<open>markdown += ...\<close>, from \<open>markdown\<close> on.\<close>

fun convertBlocksFrom :: "jsstring \<Rightarrow> block list \<Rightarrow> error + jsstring" where
  "convertBlocksFrom markdown [] = Inr markdown"
| "convertBlocksFrom markdown (b # bs) =
     (case convertBlockToMarkdown b of
        Inl e \<Rightarrow> Inl e
      | Inr out \<Rightarrow> convertBlocksFrom (markdown @ out) bs)"

definition convertBlocksToMarkdown :: "block list \<Rightarrow> error + jsstring" where
  "convertBlocksToMarkdown blocks = convertBlocksFrom [] blocks"

text \<open>The number of line feeds a string ends with.\<close>

definition trailingNewlines :: "jsstring \<Rightarrow> nat" where
  "trailingNewlines s = length (takeWhile (\<lambda>c. c = 10) (rev s))"



section \<open>Pages and documents (converter.ts, \<open>convertToMDX\<close>)\<close>

text \<open>
  A property of a Notion page, with what \<open>extractTitle\<close> reads: its \<open>type\<close> and its
  \<open>title\<close> (\<open>None\<close> when that is not an array).
\<close>

record property =
  ptype :: jsstring
  ptitle :: "RichSpan list option"

text \<open>The interface \<open>NotionPage\<close> of types.ts (\<open>page_id\<close> is its \<open>id\<close>).\<close>

record NotionPage =
  page_id :: jsstring
  title :: jsstring
  content :: jsstring
  properties :: "(jsstring \<times> property) list"
  lastEditedTime :: jsstring
  url :: jsstring

text \<open>
  What the code takes from outside the repository and the model does not compute; these
  are parameters. \<open>parseDate s\<close> is the time value of \<open>new Date(s)\<close>, in milliseconds
  since the epoch, or \<open>None\<close> for an invalid date (a time value is at most 8.64e15 in
  absolute value). \<open>yamlDump\<close> and \<open>yamlLoad\<close> are \<open>dump\<close> and \<open>load\<close> of the
  library js-yaml, through which gray-matter writes and reads the front matter, on objects
  whose values are strings. \<open>clock\<close> is the time value of \<open>new Date()\<close>.
\<close>

record runtime =
  parseDate :: "jsstring \<Rightarrow> int option"
  yamlDump :: "(jsstring \<times> jsstring) list \<Rightarrow> jsstring"
  yamlLoad :: "jsstring \<Rightarrow> (jsstring \<times> jsstring) list"
  clock :: int

text \<open>
  \<open>Date.prototype.toISOString\<close> (ECMAScript, Date Time String Format) of a time value
  \<open>t\<close>. \<open>utcYear\<close>, \<open>utcMonth\<close> (1 to 12) and \<open>utcDay\<close> are the year, the
  month and the day of the month of \<open>t\<close> in the proleptic Gregorian calendar, as
  \<open>YearFromTime\<close>, \<open>MonthFromTime\<close> and \<open>DateFromTime\<close> give them. They are
  computed from the day number \<open>t div 86400000\<close> in eras of 400 years (146097 days)
  that start on a first of March: \<open>dayOfEra\<close> is the day in the era, \<open>yearOfEra\<close>
  its year in the era, \<open>dayOfYear\<close> its day in that year, \<open>monthIndex\<close> its month
  counted from March. \<open>pad w n\<close> is \<open>n\<close> in \<open>w\<close> decimal digits. A year from 0
  to 9999 is written in four digits, any other year with its sign and in six digits.
\<close>

definition isDigit :: "nat \<Rightarrow> bool" where
  "isDigit c = (48 \<le> c \<and> c \<le> 57)"

definition dayOfEra :: "int \<Rightarrow> int" where
  "dayOfEra t = (t div 86400000 + 719468) mod 146097"

definition yearOfEra :: "int \<Rightarrow> int" where
  "yearOfEra doe = (doe - doe div 1460 + doe div 36524 - doe div 146096) div 365"

definition dayOfYear :: "int \<Rightarrow> int" where
  "dayOfYear doe = doe - (365 * yearOfEra doe + yearOfEra doe div 4 - yearOfEra doe div 100)"

definition monthIndex :: "int \<Rightarrow> int" where
  "monthIndex doe = (5 * dayOfYear doe + 2) div 153"

definition utcMonth :: "int \<Rightarrow> nat" where
  "utcMonth t =
     nat (if monthIndex (dayOfEra t) < 10 then monthIndex (dayOfEra t) + 3
          else monthIndex (dayOfEra t) - 9)"

definition utcDay :: "int \<Rightarrow> nat" where
  "utcDay t = nat (dayOfYear (dayOfEra t) - (153 * monthIndex (dayOfEra t) + 2) div 5 + 1)"

definition utcYear :: "int \<Rightarrow> int" where
  "utcYear t =
     yearOfEra (dayOfEra t) + (t div 86400000 + 719468) div 146097 * 400
     + (if utcMonth t \<le> 2 then 1 else 0)"

fun pad :: "nat \<Rightarrow> nat \<Rightarrow> jsstring" where
  "pad 0 n = []"
| "pad (Suc w) n = pad w (n div 10) @ [48 + n mod 10]"

definition yearText :: "int \<Rightarrow> jsstring" where
  "yearText y =
     (if 0 \<le> y \<and> y \<le> 9999 then pad 4 (nat y)
      else (if y < 0 then js ''-'' else js ''+'') @ pad 6 (nat \<bar>y\<bar>))"

definition isoDate :: "int \<Rightarrow> jsstring" where
  "isoDate t = yearText (utcYear t) @ js ''-'' @ pad 2 (utcMonth t) @ js ''-'' @ pad 2 (utcDay t)"

definition msOfDay :: "int \<Rightarrow> nat" where
  "msOfDay t = nat (t mod 86400000)"

definition isoClock :: "int \<Rightarrow> jsstring" where
  "isoClock t =
     pad 2 (msOfDay t div 3600000) @ js '':'' @ pad 2 (msOfDay t div 60000 mod 60) @ js '':''
     @ pad 2 (msOfDay t div 1000 mod 60) @ js ''.'' @ pad 3 (msOfDay t mod 1000) @ js ''Z''"

definition isoOfTime :: "int \<Rightarrow> jsstring" where
  "isoOfTime t = isoDate t @ js ''T'' @ isoClock t"

text \<open>
  \<open>new Date(s).toISOString()\<close>, which throws a \<open>RangeError\<close> for an invalid date
  (\<open>None\<close>), and \<open>new Date().toISOString()\<close>.
\<close>

definition toISOString :: "runtime \<Rightarrow> jsstring \<Rightarrow> jsstring option" where
  "toISOString rt s =
     (case parseDate rt s of None \<Rightarrow> None | Some t \<Rightarrow> Some (isoOfTime t))"

definition now :: "runtime \<Rightarrow> jsstring" where
  "now rt = isoOfTime (clock rt)"

text \<open>
  \<open>s.split(sep)[0]\<close> for a separator that is not empty: \<open>s\<close> up to the first
  occurrence of \<open>sep\<close>, all of \<open>s\<close> when there is none. This is also
  \<open>s.slice(0, i)\<close> for \<open>i = s.indexOf(sep)\<close>, taken as the length of \<open>s\<close> when it
  is -1. \<open>occursIn sep s\<close>: \<open>sep\<close> is found in \<open>s\<close>.
\<close>

fun beforeFirst :: "jsstring \<Rightarrow> jsstring \<Rightarrow> jsstring" where
  "beforeFirst sep [] = []"
| "beforeFirst sep (c # cs) =
     (if take (length sep) (c # cs) = sep then [] else c # beforeFirst sep cs)"

fun occursIn :: "jsstring \<Rightarrow> jsstring \<Rightarrow> bool" where
  "occursIn sep [] = (sep = [])"
| "occursIn sep (c # cs) = (take (length sep) (c # cs) = sep \<or> occursIn sep cs)"

text \<open>
  The own keys of a JavaScript object come in this order: the keys that are array indices
  (canonical decimal numbers below 4294967295) in ascending order, then every other key in
  the order of creation. \<open>arrayIndex\<close> is the number of such a key.

  The object spread \<open>{...obj, ...extra}\<close> on objects given as lists of keys and values,
  each in the order of its keys: a key of \<open>extra\<close> that \<open>obj\<close> has replaces the value,
  a new one is created, and the keys of the result are in the order just described.
\<close>

definition arrayIndex :: "jsstring \<Rightarrow> nat option" where
  "arrayIndex k =
     (if k \<noteq> [] \<and> list_all isDigit k \<and> (hd k \<noteq> 48 \<or> length k = 1)
         \<and> foldl (\<lambda>n c. 10 * n + (c - 48)) 0 k < 4294967295
      then Some (foldl (\<lambda>n c. 10 * n + (c - 48)) 0 k) else None)"

definition ownKeysOrder :: "(jsstring \<times> 'v) list \<Rightarrow> (jsstring \<times> 'v) list" where
  "ownKeysOrder obj =
     sort_key (\<lambda>(k, v). the (arrayIndex k)) (filter (\<lambda>(k, v). arrayIndex k \<noteq> None) obj)
     @ filter (\<lambda>(k, v). arrayIndex k = None) obj"

definition spread :: "(jsstring \<times> 'v) list \<Rightarrow> (jsstring \<times> 'v) list \<Rightarrow> (jsstring \<times> 'v) list" where
  "spread obj extra = ownKeysOrder (fold (\<lambda>(k, v) acc. AList.update k v acc) extra obj)"

text \<open>
  The library gray-matter (version 4), which is not code of this repository, as far as the
  code and the round trip use it. \<open>newline\<close> is its helper of that name: a string gets
  a line feed at its end unless it has one.

  \<open>stringify rt data\<close> is \<open>matter.stringify('', data)\<close>: the YAML of the data,
  trimmed, between two lines \<open>---\<close> (nothing when the YAML is \<open>{}\<close>), followed by the
  content \<open>''\<close> with its line feed. So the front matter ends with the closing delimiter,
  its line feed, and one more line feed.
\<close>

definition newline :: "jsstring \<Rightarrow> jsstring" where
  "newline s = (if s \<noteq> [] \<and> last s = 10 then s else s @ [10])"

definition stringify :: "runtime \<Rightarrow> (jsstring \<times> jsstring) list \<Rightarrow> jsstring" where
  "stringify rt data =
     (let matter = trim (yamlDump rt data);
          buf = (if matter \<noteq> js ''{}''
                 then newline (js ''---'') @ newline matter @ newline (js ''---'')
                 else [])
      in buf @ newline [])"

text \<open>
  \<open>matterData rt input\<close> is the field \<open>data\<close> of \<open>matter(input)\<close>, as
  \<open>parseMatter\<close> computes it. A byte order mark at the start of the input is dropped.
  The input has front matter when it then starts with \<open>---\<close>
  and a fourth hyphen does not follow. A word on the rest of that line names the language
  of the front matter; the model follows YAML only (no word) and answers \<open>None\<close> for any
  other. The front matter is the text up to the first \<open>\n---\<close>. It is loaded as YAML,
  unless nothing is left of it once comments (\<open>/^\s*#[^\n]+/gm\<close>) and surrounding white
  space are removed: then the data are empty.
\<close>

definition isLineTerminator :: "nat \<Rightarrow> bool" where
  "isLineTerminator c = (c = 10 \<or> c = 13 \<or> c = 8232 \<or> c = 8233)"

function removeComments :: "bool \<Rightarrow> jsstring \<Rightarrow> jsstring" where
  "removeComments atLineStart [] = []"
| "removeComments atLineStart (c # cs) =
     (case dropWhile isWhiteSpace (c # cs) of
        x # y # rest \<Rightarrow>
          if atLineStart \<and> x = 35 \<and> y \<noteq> 10
          then removeComments (isLineTerminator (last (y # takeWhile (\<lambda>c. c \<noteq> 10) rest)))
                 (dropWhile (\<lambda>c. c \<noteq> 10) rest)
          else c # removeComments (isLineTerminator c) cs
      | short \<Rightarrow> c # removeComments (isLineTerminator c) cs)"
  by pat_completeness auto
termination
proof (relation "measure (\<lambda>(b, s). length s)")
  show "wf (measure (\<lambda>(b, s). length s))"
    by simp
next
  fix atLineStart :: bool and c :: nat and cs x :: "nat list" and y :: nat and rest x21 x22
  assume "dropWhile isWhiteSpace (c # cs) = x21 # x" and "x = y # rest"
  then have "length (x21 # y # rest) \<le> length (c # cs)"
    using length_dropWhile_le[of isWhiteSpace "c # cs"] by simp
  moreover have "length (dropWhile (\<lambda>c. c \<noteq> 10) rest) \<le> length rest"
    by (rule length_dropWhile_le)
  ultimately show "((isLineTerminator (last (y # takeWhile (\<lambda>c. c \<noteq> 10) rest)),
      dropWhile (\<lambda>c. c \<noteq> 10) rest), atLineStart, c # cs) \<in> measure (\<lambda>(b, s). length s)"
    by simp
qed auto

definition stripBom :: "jsstring \<Rightarrow> jsstring" where
  "stripBom s = (if take 1 s = [65279] then drop 1 s else s)"

definition matterData :: "runtime \<Rightarrow> jsstring \<Rightarrow> (jsstring \<times> jsstring) list option" where
  "matterData rt doc =
     (if take 3 (stripBom doc) \<noteq> js ''---'' then Some []
      else if take 1 (drop 3 (stripBom doc)) = js ''-'' then Some []
      else
        (let str = drop 3 (stripBom doc);
             language = (if list_ex (\<lambda>c. c = 10) str then takeWhile (\<lambda>c. c \<noteq> 10) str
                         else butlast str)
         in if trim language \<noteq> [] then None
            else
              (let matter = beforeFirst (js ''\<newline>---'') str
               in if trim (removeComments True matter) = [] then Some []
                  else Some (yamlLoad rt matter))))"

text \<open>
  \<open>convertToMDX(page, frontMatter)\<close>; a call without \<open>frontMatter\<close> passes the empty
  list.
\<close>

definition convertToMDX :: "runtime \<Rightarrow> NotionPage \<Rightarrow> (jsstring \<times> jsstring) list \<Rightarrow> error + jsstring" where
  "convertToMDX rt page frontMatter =
     (case toISOString rt (lastEditedTime page) of
        None \<Rightarrow> Inl (RangeError (js ''Invalid time value''))
      | Some isoString \<Rightarrow>
          (let publishedDate = beforeFirst (js ''T'') isoString;
               firstParagraph = beforeFirst [10, 10] (content page);
               summary =
                 (if 150 < length firstParagraph then take 150 firstParagraph @ js ''...''
                  else if firstParagraph \<noteq> [] then firstParagraph
                  else js ''No summary available'');
               defaultFrontMatter =
                 spread [(js ''title'', title page), (js ''publishedAt'', publishedDate),
                         (js ''summary'', summary)] frontMatter;
               frontMatterString = stringify rt defaultFrontMatter
           in Inr (frontMatterString @ [10, 10] @ content page)))"

text \<open>A calendar date \<open>YYYY-MM-DD\<close>.\<close>

definition isDate :: "jsstring \<Rightarrow> bool" where
  "isDate d =
     (length d = 10 \<and> list_all isDigit (take 4 d) \<and> d ! 4 = 45
      \<and> list_all isDigit (take 2 (drop 5 d)) \<and> d ! 7 = 45 \<and> list_all isDigit (drop 8 d))"

text \<open>
  A runtime and a page to evaluate the model on. The runtime knows the time value of the
  one timestamp of the examples, in the two ways it is written. Its YAML stands in for
  js-yaml on the values of the examples and is no model of it beyond them: it writes one
  line \<open>key: value\<close> for each entry (and \<open>{}\<close> for no entry), a value between single
  quotes when it holds a comma or is a date, which js-yaml quotes too; and it reads such
  lines back. The page is the one of the specification's scenario.
\<close>

definition exampleDump :: "(jsstring \<times> jsstring) list \<Rightarrow> jsstring" where
  "exampleDump data =
     (if data = [] then js ''{}'' @ [10]
      else concat (map (\<lambda>(k, v).
             k @ js '': ''
             @ (if list_ex (\<lambda>c. c = 44) v \<or> isDate v then [39] @ v @ [39] else v)
             @ [10]) data))"

fun linesFrom :: "jsstring \<Rightarrow> jsstring \<Rightarrow> jsstring list" where
  "linesFrom cur [] = [cur]"
| "linesFrom cur (c # cs) = (if c = 10 then cur # linesFrom [] cs else linesFrom (cur @ [c]) cs)"

definition exampleLoad :: "jsstring \<Rightarrow> (jsstring \<times> jsstring) list" where
  "exampleLoad s =
     map (\<lambda>l. let k = beforeFirst (js '': '') l;
                  v = drop (length k + 2) l
              in (k, if 2 \<le> length v \<and> hd v = 39 \<and> last v = 39 then butlast (tl v) else v))
       (filter (\<lambda>l. l \<noteq> []) (linesFrom [] s))"

definition exampleRuntime :: runtime where
  "exampleRuntime =
     \<lparr>parseDate = (\<lambda>s. if s = js ''2024-03-05T10:00:00Z'' \<or> s = js ''2024-03-05T10:00:00.000Z''
                        then Some 1709632800000 else None),
      yamlDump = exampleDump,
      yamlLoad = exampleLoad,
      clock = 1709683200000\<rparr>"

definition examplePage :: NotionPage where
  "examplePage =
     \<lparr>page_id = js ''p1'', title = js ''Hello, World!'',
      content = js ''Intro paragraph text.'', properties = [],
      lastEditedTime = js ''2024-03-05T10:00:00Z'', url = []\<rparr>"

section \<open>The hosting service\<close>

text \<open>
  The interfaces \<open>ConversionConfig\<close> and \<open>GitHubFile\<close> of types.ts (the fields of a
  file are \<open>path\<close>, \<open>content\<close> and \<open>message\<close> there).
\<close>

record ConversionConfig =
  notionDatabaseId :: jsstring
  githubRepoOwner :: jsstring
  githubRepoName :: jsstring
  githubBranch :: jsstring
  outputPath :: jsstring

record GitHubFile =
  file_path :: jsstring
  file_content :: jsstring
  file_message :: jsstring

text \<open>
  GitHub is not code of this repository; what follows is the model of the configured
  repository that the claims about the two writers are stated against. Object ids are
  numbers, handed out in order. The service keeps its branch refs, its commits and its
  trees (a tree is the map from paths to file contents it stands for), and, for the
  contents interface, what is found at each path of the configured branch: a file with its
  text and the id of its blob (\<open>File\<close>: the service answers with the text in base64), a
  file of more than 1 MB (\<open>Unencoded\<close>: the service answers with an empty \<open>content\<close>
  and the encoding \<open>none\<close>), or a directory (the answer is an array). The model is of
  one client at a time: no other writer moves a ref between two requests.

  Every request is recorded in \<open>requests\<close>, in the order of issue. A request fails when
  the service cannot answer it (the ref, object or path is not there), and also whenever
  \<open>faulty\<close> says so for its position in the record: this stands for every failure
  from outside (network, rate limit, a 5xx answer). A request that fails changes nothing
  but the record.
\<close>

type_synonym sha = nat

record commit =
  commit_message :: jsstring
  commit_tree :: sha
  commit_parents :: "sha list"

datatype entry = File jsstring sha | Unencoded sha | Directory

datatype request =
    ReposGet
  | GetRef jsstring
  | CreateTree "(jsstring \<times> jsstring) list" sha
  | CreateCommit jsstring sha "sha list"
  | UpdateRef jsstring sha
  | GetContent jsstring
  | PutContent jsstring jsstring jsstring "sha option"

record github =
  accessible :: bool
  faulty :: "nat \<Rightarrow> bool"
  requests :: "request list"
  refs :: "jsstring \<rightharpoonup> sha"
  commits :: "sha \<rightharpoonup> commit"
  trees :: "sha \<rightharpoonup> (jsstring \<rightharpoonup> jsstring)"
  fresh :: sha
  contents :: "jsstring \<rightharpoonup> entry"

text \<open>Issuing a request: it is recorded, and it gets through or not.\<close>

definition issue :: "request \<Rightarrow> github \<Rightarrow> bool \<times> github" where
  "issue r s = (\<not> faulty s (length (requests s)), s\<lparr>requests := requests s @ [r]\<rparr>)"

definition unavailable :: error where
  "unavailable = HttpError 500 (js ''Internal Server Error'')"

definition notFound :: error where
  "notFound = HttpError 404 (js ''Not Found'')"

definition unprocessable :: error where
  "unprocessable = HttpError 422 (js ''Unprocessable Entity'')"

definition conflict :: error where
  "conflict = HttpError 409 (js ''Conflict'')"

text \<open>\<open>octokit.repos.get\<close>.\<close>

definition api_reposGet :: "github \<Rightarrow> (error + unit) \<times> github" where
  "api_reposGet s =
     (case issue ReposGet s of
        (ok, s1) \<Rightarrow>
          if \<not> ok then (Inl unavailable, s1)
          else if accessible s1 then (Inr (), s1)
          else (Inl notFound, s1))"

text \<open>\<open>octokit.git.getRef\<close>: the commit the ref points to.\<close>

definition api_getRef :: "jsstring \<Rightarrow> github \<Rightarrow> (error + sha) \<times> github" where
  "api_getRef ref s =
     (case issue (GetRef ref) s of
        (ok, s1) \<Rightarrow>
          if \<not> ok then (Inl unavailable, s1)
          else (case refs s1 ref of
                  None \<Rightarrow> (Inl notFound, s1)
                | Some c \<Rightarrow> (Inr c, s1)))"

text \<open>
  \<open>octokit.git.createTree\<close>: a new tree, the base with the entries written over it in
  their order. The base may be given by a tree or by a commit, whose tree is then meant.
\<close>

definition baseFiles :: "github \<Rightarrow> sha \<Rightarrow> (jsstring \<rightharpoonup> jsstring) option" where
  "baseFiles s base =
     (case commits s base of
        Some c \<Rightarrow> trees s (commit_tree c)
      | None \<Rightarrow> trees s base)"

definition overlay :: "(jsstring \<rightharpoonup> jsstring) \<Rightarrow> (jsstring \<times> jsstring) list \<Rightarrow> (jsstring \<rightharpoonup> jsstring)" where
  "overlay files entries = fold (\<lambda>(p, c) m. m(p \<mapsto> c)) entries files"

definition api_createTree :: "(jsstring \<times> jsstring) list \<Rightarrow> sha \<Rightarrow> github \<Rightarrow> (error + sha) \<times> github" where
  "api_createTree entries base s =
     (case issue (CreateTree entries base) s of
        (ok, s1) \<Rightarrow>
          if \<not> ok then (Inl unavailable, s1)
          else (case baseFiles s1 base of
                  None \<Rightarrow> (Inl notFound, s1)
                | Some files \<Rightarrow>
                    (Inr (fresh s1),
                     s1\<lparr>trees := (trees s1)(fresh s1 \<mapsto> overlay files entries),
                        fresh := fresh s1 + 1\<rparr>)))"

text \<open>\<open>octokit.git.createCommit\<close>: a new commit of a tree the service has.\<close>

definition api_createCommit :: "jsstring \<Rightarrow> sha \<Rightarrow> sha list \<Rightarrow> github \<Rightarrow> (error + sha) \<times> github" where
  "api_createCommit msg tree parents s =
     (case issue (CreateCommit msg tree parents) s of
        (ok, s1) \<Rightarrow>
          if \<not> ok then (Inl unavailable, s1)
          else if trees s1 tree = None then (Inl unprocessable, s1)
          else (Inr (fresh s1),
                s1\<lparr>commits := (commits s1)(fresh s1 \<mapsto>
                       \<lparr>commit_message = msg, commit_tree = tree, commit_parents = parents\<rparr>),
                   fresh := fresh s1 + 1\<rparr>))"

text \<open>\<open>octokit.git.updateRef\<close>: an existing ref is moved to a commit the service has.\<close>

definition api_updateRef :: "jsstring \<Rightarrow> sha \<Rightarrow> github \<Rightarrow> (error + unit) \<times> github" where
  "api_updateRef ref c s =
     (case issue (UpdateRef ref c) s of
        (ok, s1) \<Rightarrow>
          if \<not> ok then (Inl unavailable, s1)
          else if refs s1 ref = None \<or> commits s1 c = None then (Inl unprocessable, s1)
          else (Inr (), s1\<lparr>refs := (refs s1)(ref \<mapsto> c)\<rparr>))"

text \<open>\<open>octokit.repos.getContent\<close> at a path of the configured branch.\<close>

definition api_getContent :: "jsstring \<Rightarrow> github \<Rightarrow> (error + entry) \<times> github" where
  "api_getContent p s =
     (case issue (GetContent p) s of
        (ok, s1) \<Rightarrow>
          if \<not> ok then (Inl unavailable, s1)
          else (case contents s1 p of
                  None \<Rightarrow> (Inl notFound, s1)
                | Some e \<Rightarrow> (Inr e, s1)))"

text \<open>
  \<open>octokit.repos.createOrUpdateFileContents\<close>. A file that is not there is created when
  no blob id is sent. A file that is there is replaced when the blob id sent is its own;
  with no blob id the service answers 422, with another one 409.
\<close>

definition api_putContent :: "jsstring \<Rightarrow> jsstring \<Rightarrow> jsstring \<Rightarrow> sha option \<Rightarrow> github \<Rightarrow> (error + unit) \<times> github" where
  "api_putContent p msg text_new blob s =
     (case issue (PutContent p msg text_new blob) s of
        (ok, s1) \<Rightarrow>
          if \<not> ok then (Inl unavailable, s1)
          else (case contents s1 p of
                  None \<Rightarrow>
                    (case blob of
                       None \<Rightarrow>
                         (Inr (), s1\<lparr>contents := (contents s1)(p \<mapsto> File text_new (fresh s1)),
                                     fresh := fresh s1 + 1\<rparr>)
                     | Some b \<Rightarrow> (Inl unprocessable, s1))
                | Some Directory \<Rightarrow> (Inl unprocessable, s1)
                | Some (File text_old b_old) \<Rightarrow>
                    (case blob of
                       None \<Rightarrow> (Inl unprocessable, s1)
                     | Some b \<Rightarrow>
                         if b = b_old
                         then (Inr (), s1\<lparr>contents := (contents s1)(p \<mapsto> File text_new (fresh s1)),
                                          fresh := fresh s1 + 1\<rparr>)
                         else (Inl conflict, s1))
                | Some (Unencoded b_old) \<Rightarrow>
                    (case blob of
                       None \<Rightarrow> (Inl unprocessable, s1)
                     | Some b \<Rightarrow>
                         if b = b_old
                         then (Inr (), s1\<lparr>contents := (contents s1)(p \<mapsto> File text_new (fresh s1)),
                                          fresh := fresh s1 + 1\<rparr>)
                         else (Inl conflict, s1))))"

section \<open>The writers (class \<open>GitHubService\<close>)\<close>

definition branchRef :: "ConversionConfig \<Rightarrow> jsstring" where
  "branchRef cfg = js ''heads/'' @ githubBranch cfg"

text \<open>\<open>createTree(files, baseTreeSha)\<close>: every file becomes an entry of the tree.\<close>

definition createTree :: "GitHubFile list \<Rightarrow> sha \<Rightarrow> github \<Rightarrow> (error + sha) \<times> github" where
  "createTree files baseTreeSha s =
     api_createTree (map (\<lambda>f. (file_path f, file_content f)) files) baseTreeSha s"

text \<open>
  \<open>pushFiles(files)\<close>. Whatever is thrown inside is caught and
  \<open>new Error('Failed to push files to GitHub')\<close> is thrown in its place.
\<close>

definition pushFailed :: error where
  "pushFailed = Error (js ''Failed to push files to GitHub'')"

definition commitMessage :: "runtime \<Rightarrow> jsstring" where
  "commitMessage rt = js ''Update MDX files from Notion - '' @ now rt"

definition pushFiles :: "ConversionConfig \<Rightarrow> runtime \<Rightarrow> GitHubFile list \<Rightarrow> github \<Rightarrow> (error + unit) \<times> github" where
  "pushFiles cfg rt files s =
     (case api_getRef (branchRef cfg) s of
        (Inl e, s1) \<Rightarrow> (Inl pushFailed, s1)
      | (Inr baseTreeSha, s1) \<Rightarrow>
          (case createTree files baseTreeSha s1 of
             (Inl e, s2) \<Rightarrow> (Inl pushFailed, s2)
           | (Inr tree, s2) \<Rightarrow>
               (case api_createCommit (commitMessage rt) tree [baseTreeSha] s2 of
                  (Inl e, s3) \<Rightarrow> (Inl pushFailed, s3)
                | (Inr c, s3) \<Rightarrow>
                    (case api_updateRef (branchRef cfg) c s3 of
                       (Inl e, s4) \<Rightarrow> (Inl pushFailed, s4)
                     | (Inr u, s4) \<Rightarrow> (Inr (), s4)))))"

text \<open>
  \<open>getFileContent(filePath)\<close>: the text of the file, or \<open>null\<close> when the answer is not
  a file or the request fails with status 404; any other failure is thrown on. The text is
  \<open>Buffer.from(String(data.content), enc).toString()\<close>: for the encoding \<open>base64\<close>
  the text the service holds, while for the encoding \<open>none\<close> \<open>Buffer.from\<close> throws a
  \<open>TypeError\<close> (unknown encoding).
\<close>

definition getFileContent :: "jsstring \<Rightarrow> github \<Rightarrow> (error + jsstring option) \<times> github" where
  "getFileContent filePath s =
     (case api_getContent filePath s of
        (Inr (File t b), s1) \<Rightarrow> (Inr (Some t), s1)
      | (Inr (Unencoded b), s1) \<Rightarrow> (Inl (TypeError (js ''Unknown encoding: none'')), s1)
      | (Inr Directory, s1) \<Rightarrow> (Inr None, s1)
      | (Inl (HttpError st m), s1) \<Rightarrow>
          if st = 404 then (Inr None, s1) else (Inl (HttpError st m), s1)
      | (Inl e, s1) \<Rightarrow> (Inl e, s1))"

text \<open>\<open>checkFileExists(filePath)\<close>, which no other function of the repository calls.\<close>

definition checkFileExists :: "jsstring \<Rightarrow> github \<Rightarrow> (error + bool) \<times> github" where
  "checkFileExists filePath s =
     (case api_getContent filePath s of
        (Inr e, s1) \<Rightarrow> (Inr True, s1)
      | (Inl (HttpError st m), s1) \<Rightarrow>
          if st = 404 then (Inr False, s1) else (Inl (HttpError st m), s1)
      | (Inl e, s1) \<Rightarrow> (Inl e, s1))"

text \<open>\<open>getFileSha(filePath)\<close>.\<close>

definition getFileSha :: "jsstring \<Rightarrow> github \<Rightarrow> (error + sha) \<times> github" where
  "getFileSha filePath s =
     (case api_getContent filePath s of
        (Inr (File t b), s1) \<Rightarrow> (Inr b, s1)
      | (Inr (Unencoded b), s1) \<Rightarrow> (Inr b, s1)
      | (Inr Directory, s1) \<Rightarrow> (Inl (Error (js ''Could not get file SHA'')), s1)
      | (Inl e, s1) \<Rightarrow> (Inl e, s1))"

text \<open>
  \<open>createOrUpdateFile(filePath, content, message)\<close>. The test \<open>if (existingFile)\<close> is
  on a value that is a string or \<open>null\<close>. Whatever is thrown inside is caught and
  \<open>new Error(`Failed to create/update file: ${filePath}`)\<close> is thrown in its place.
\<close>

definition writeFailed :: "jsstring \<Rightarrow> error" where
  "writeFailed filePath = Error (js ''Failed to create/update file: '' @ filePath)"

definition createOrUpdateFile :: "jsstring \<Rightarrow> jsstring \<Rightarrow> jsstring \<Rightarrow> github \<Rightarrow> (error + unit) \<times> github" where
  "createOrUpdateFile filePath text_new msg s =
     (case getFileContent filePath s of
        (Inl e, s1) \<Rightarrow> (Inl (writeFailed filePath), s1)
      | (Inr existingFile, s1) \<Rightarrow>
          if truthy existingFile
          then (case getFileSha filePath s1 of
                  (Inl e, s2) \<Rightarrow> (Inl (writeFailed filePath), s2)
                | (Inr b, s2) \<Rightarrow>
                    (case api_putContent filePath msg text_new (Some b) s2 of
                       (Inl e, s3) \<Rightarrow> (Inl (writeFailed filePath), s3)
                     | (Inr u, s3) \<Rightarrow> (Inr (), s3)))
          else (case api_putContent filePath msg text_new None s1 of
                  (Inl e, s2) \<Rightarrow> (Inl (writeFailed filePath), s2)
                | (Inr u, s2) \<Rightarrow> (Inr (), s2)))"

text \<open>\<open>validateRepository()\<close>.\<close>

definition validateRepository :: "github \<Rightarrow> bool \<times> github" where
  "validateRepository s =
     (case api_reposGet s of
        (Inl e, s1) \<Rightarrow> (False, s1)
      | (Inr u, s1) \<Rightarrow> (True, s1))"

text \<open>
  A configuration and a repository to evaluate the writers on: the branch \<open>main\<close>
  points to commit 1, whose tree 0 is empty, and no request fails from outside.
\<close>

definition exampleConfig :: ConversionConfig where
  "exampleConfig =
     \<lparr>notionDatabaseId = js ''db'', githubRepoOwner = js ''owner'',
      githubRepoName = js ''repo'', githubBranch = js ''main'',
      outputPath = js ''content/posts''\<rparr>"

definition exampleGitHub :: github where
  "exampleGitHub =
     \<lparr>accessible = True, faulty = (\<lambda>n. False), requests = [],
      refs = [js ''heads/main'' \<mapsto> 1],
      commits = [1 \<mapsto> \<lparr>commit_message = js ''init'', commit_tree = 0, commit_parents = []\<rparr>],
      trees = [0 \<mapsto> Map.empty], fresh = 2, contents = Map.empty\<rparr>"

definition exampleFile :: GitHubFile where
  "exampleFile =
     \<lparr>file_path = js ''content/posts/hello-world.mdx'', file_content = js ''Hello'',
      file_message = js ''Update Hello, World! from Notion''\<rparr>"

section \<open>The content source and the two sync modes\<close>

text \<open>
  The Notion client, as far as the code calls it: \<open>databases.query\<close> by database id
  and \<open>blocks.children.list\<close> by page id. Either answers or throws. An entry of a query
  result has an id and, when it is a full page object, its properties, and it may have
  \<open>last_edited_time\<close> and \<open>url\<close>.
\<close>

record pageObject =
  obj_id :: jsstring
  obj_properties :: "(jsstring \<times> property) list option"
  last_edited_time :: "jsstring option"
  obj_url :: "jsstring option"

record notionClient =
  databases_query :: "jsstring \<Rightarrow> error + pageObject list"
  blocks_children_list :: "jsstring \<Rightarrow> error + block list"

text \<open>
  \<open>extractTitle(properties)\<close>: the first text of the first property of type
  \<open>title\<close> whose title is an array that is not empty, else \<open>Untitled\<close>.
\<close>

fun extractTitle :: "(jsstring \<times> property) list \<Rightarrow> jsstring" where
  "extractTitle [] = js ''Untitled''"
| "extractTitle ((k, v) # rest) =
     (case ptitle v of
        Some (t # ts) \<Rightarrow> if ptype v = js ''title'' then plain_text t else extractTitle rest
      | Some [] \<Rightarrow> extractTitle rest
      | None \<Rightarrow> extractTitle rest)"

text \<open>
  \<open>getPageContent(pageId)\<close>: the blocks of the page rendered, and the empty text when
  fetching or rendering them throws.
\<close>

definition getPageContent :: "notionClient \<Rightarrow> jsstring \<Rightarrow> jsstring" where
  "getPageContent nc pageId =
     (case blocks_children_list nc pageId of
        Inl e \<Rightarrow> []
      | Inr blocks \<Rightarrow>
          (case convertBlocksToMarkdown blocks of Inl e \<Rightarrow> [] | Inr markdown \<Rightarrow> markdown))"

text \<open>
  \<open>getPagesFromDatabase(databaseId)\<close>; \<open>collectPages\<close> is its loop over the results.
  Whatever is thrown inside is caught and
  \<open>new Error('Failed to fetch pages from Notion')\<close> is thrown in its place.
\<close>

fun collectPages :: "notionClient \<Rightarrow> runtime \<Rightarrow> pageObject list \<Rightarrow> NotionPage list" where
  "collectPages nc rt [] = []"
| "collectPages nc rt (r # rs) =
     (case obj_properties r of
        None \<Rightarrow> collectPages nc rt rs
      | Some props \<Rightarrow>
          \<lparr>page_id = obj_id r,
           title = extractTitle props,
           content = getPageContent nc (obj_id r),
           properties = props,
           lastEditedTime =
             (if truthy (last_edited_time r) then the (last_edited_time r) else now rt),
           url = (if truthy (obj_url r) then the (obj_url r) else [])\<rparr>
          # collectPages nc rt rs)"

definition getPagesFromDatabase :: "notionClient \<Rightarrow> runtime \<Rightarrow> jsstring \<Rightarrow> error + NotionPage list" where
  "getPagesFromDatabase nc rt databaseId =
     (case databases_query nc databaseId of
        Inl e \<Rightarrow> Inl (Error (js ''Failed to fetch pages from Notion''))
      | Inr results \<Rightarrow> Inr (collectPages nc rt results))"

text \<open>The interface \<open>ConversionResult\<close>; a field that is left out is \<open>None\<close>.\<close>

record ConversionResult =
  success :: bool
  message :: jsstring
  filesProcessed :: "nat option"
  errors :: "jsstring list option"

text \<open>A number in a template literal: its decimal digits.\<close>

function showNat :: "nat \<Rightarrow> jsstring" where
  "showNat n = (if n < 10 then [48 + n] else showNat (n div 10) @ [48 + n mod 10])"
  by pat_completeness auto
termination
  by (relation "measure (\<lambda>n. n)") auto

declare showNat.simps [simp del]

text \<open>
  The path both sync modes write a page to:
  \<^verbatim>\<open>`${this.config.outputPath}/${fileName}.mdx`\<close> with
  \<open>fileName = this.generateFileName(page.title)\<close>.
\<close>

definition filePathOf :: "ConversionConfig \<Rightarrow> NotionPage \<Rightarrow> jsstring" where
  "filePathOf cfg page =
     (let fileName = generateFileName (title page)
      in outputPath cfg @ js ''/'' @ fileName @ js ''.mdx'')"

definition updateMessage :: "NotionPage \<Rightarrow> jsstring" where
  "updateMessage page = js ''Update '' @ title page @ js '' from Notion''"

text \<open>
  The loop of \<open>convertAndPush\<close> over the pages, from the \<open>files\<close> and \<open>errors\<close>
  collected so far: a page whose conversion throws adds an error, any other page a file.
\<close>

fun convertPages :: "runtime \<Rightarrow> ConversionConfig \<Rightarrow> GitHubFile list \<Rightarrow> jsstring list \<Rightarrow> NotionPage list \<Rightarrow> GitHubFile list \<times> jsstring list" where
  "convertPages rt cfg files errs [] = (files, errs)"
| "convertPages rt cfg files errs (page # pages) =
     (case convertToMDX rt page [] of
        Inr mdxContent \<Rightarrow>
          convertPages rt cfg
            (files @ [\<lparr>file_path = filePathOf cfg page, file_content = mdxContent,
                        file_message = updateMessage page\<rparr>])
            errs pages
      | Inl e \<Rightarrow>
          convertPages rt cfg files
            (errs @ [js ''Failed to convert page \"'' @ title page @ js ''\": '' @ errorString e])
            pages)"

definition failure :: "string \<Rightarrow> jsstring list \<Rightarrow> ConversionResult" where
  "failure msg errs =
     \<lparr>success = False, message = js msg, filesProcessed = None, errors = Some errs\<rparr>"

text \<open>\<open>convertAndPush()\<close>, the sync of the whole database.\<close>

definition convertAndPush :: "notionClient \<Rightarrow> runtime \<Rightarrow> ConversionConfig \<Rightarrow> github \<Rightarrow> ConversionResult \<times> github" where
  "convertAndPush nc rt cfg s =
     (case validateRepository s of
        (False, s1) \<Rightarrow>
          (failure ''Invalid GitHub repository configuration''
             [js ''Repository not found or access denied''], s1)
      | (True, s1) \<Rightarrow>
          (case getPagesFromDatabase nc rt (notionDatabaseId cfg) of
             Inl e \<Rightarrow> (failure ''Conversion process failed'' [errorMessage e], s1)
           | Inr pages \<Rightarrow>
               if length pages = 0
               then (failure ''No pages found in the specified Notion database''
                       [js ''Database is empty or access denied''], s1)
               else (case convertPages rt cfg [] [] pages of
                       (files, errs) \<Rightarrow>
                         if length files = 0
                         then (failure ''No files were successfully converted'' errs, s1)
                         else (case pushFiles cfg rt files s1 of
                                 (Inl e, s2) \<Rightarrow>
                                   (failure ''Conversion process failed'' [errorMessage e], s2)
                               | (Inr u, s2) \<Rightarrow>
                                   (\<lparr>success = True,
                                     message = js ''Successfully converted and pushed ''
                                       @ showNat (length files) @ js '' pages to GitHub'',
                                     filesProcessed = Some (length files),
                                     errors = (if 0 < length errs then Some errs else None)\<rparr>,
                                    s2)))))"

text \<open>\<open>convertSinglePage(pageId)\<close>, the sync of one page.\<close>

definition convertSinglePage :: "notionClient \<Rightarrow> runtime \<Rightarrow> ConversionConfig \<Rightarrow> jsstring \<Rightarrow> github \<Rightarrow> ConversionResult \<times> github" where
  "convertSinglePage nc rt cfg pageId s =
     (case getPagesFromDatabase nc rt (notionDatabaseId cfg) of
        Inl e \<Rightarrow> (failure ''Single page conversion failed'' [errorMessage e], s)
      | Inr pages \<Rightarrow>
          (case find (\<lambda>page. page_id page = pageId) pages of
             None \<Rightarrow>
               (failure ''Page not found''
                  [js ''Page with ID '' @ pageId @ js '' not found in database''], s)
           | Some targetPage \<Rightarrow>
               (case convertToMDX rt targetPage [] of
                  Inl e \<Rightarrow> (failure ''Single page conversion failed'' [errorMessage e], s)
                | Inr mdxContent \<Rightarrow>
                    (case createOrUpdateFile (filePathOf cfg targetPage) mdxContent
                            (updateMessage targetPage) s of
                       (Inl e, s1) \<Rightarrow>
                         (failure ''Single page conversion failed'' [errorMessage e], s1)
                     | (Inr u, s1) \<Rightarrow>
                         (\<lparr>success = True,
                           message = js ''Successfully converted and pushed \"''
                             @ title targetPage @ js ''\" to GitHub'',
                           filesProcessed = Some 1, errors = None\<rparr>, s1)))))"

text \<open>
  A content source to evaluate the sync on: the database \<open>db\<close> has the three pages
  \<open>p1\<close>, \<open>p2\<close>, \<open>p3\<close> titled \<open>One\<close>, \<open>Two\<close>, \<open>Three\<close>; listing the blocks
  of \<open>p2\<close> fails, every other page has one paragraph.
\<close>

definition examplePlain :: "string \<Rightarrow> RichSpan" where
  "examplePlain s =
     \<lparr>plain_text = js s, bold = False, italic = False, strikethrough = False, code = False,
      href = None\<rparr>"

definition exampleObject :: "string \<Rightarrow> string \<Rightarrow> pageObject" where
  "exampleObject i t =
     \<lparr>obj_id = js i,
      obj_properties = Some [(js ''Name'', \<lparr>ptype = js ''title'', ptitle = Some [examplePlain t]\<rparr>)],
      last_edited_time = Some (js ''2024-03-05T10:00:00.000Z''),
      obj_url = Some (js ''https://www.notion.so/'' @ js i)\<rparr>"

definition exampleNotion :: notionClient where
  "exampleNotion =
     \<lparr>databases_query = (\<lambda>d. if d = js ''db''
        then Inr [exampleObject ''p1'' ''One'', exampleObject ''p2'' ''Two'',
                  exampleObject ''p3'' ''Three'']
        else Inl notFound),
      blocks_children_list = (\<lambda>i. if i = js ''p2'' then Inl unavailable
        else Inr [\<lparr>btype = js ''paragraph'',
                   body = Some \<lparr>rich_text = Some [examplePlain ''Text''], language = None,
                     caption = None, kind = None, external_url = None, file_url = None\<rparr>\<rparr>])\<rparr>"

section \<open>Properties of the string operations\<close>

lemma js_hyphen: "js ''-'' = [45]"
  by (simp add: js_def)

lemma replaceRuns_members:
  "set (replaceRuns p r s) \<subseteq> set r \<union> {c \<in> set s. \<not> p c}"
proof (induction p r s rule: replaceRuns.induct)
  case (1 p r)
  show ?case by simp
next
  case (2 p r c cs)
  show ?case
  proof (cases "p c")
    case True
    have "set (dropWhile p cs) \<subseteq> set cs"
      by (auto dest: set_dropWhileD)
    with 2(1)[OF True] True show ?thesis by auto
  next
    case False
    with 2(2)[OF False] show ?thesis by auto
  qed
qed

lemma replaceRuns_none: "list_all (\<lambda>c. \<not> p c) s \<Longrightarrow> replaceRuns p r s = s"
  by (induction s) auto

lemma dropWhile_none: "list_all (\<lambda>c. \<not> p c) s \<Longrightarrow> dropWhile p s = s"
  by (cases s) auto

lemma trim_none: "list_all (\<lambda>c. \<not> isWhiteSpace c) s \<Longrightarrow> trim s = s"
proof -
  assume a: "list_all (\<lambda>c. \<not> isWhiteSpace c) s"
  then have "list_all (\<lambda>c. \<not> isWhiteSpace c) (rev s)"
    by (simp add: list_all_iff)
  then show ?thesis
    using a by (simp add: trim_def dropWhile_none)
qed

lemma replaceRuns_head:
  "s \<noteq> [] \<Longrightarrow> \<not> p (hd s) \<Longrightarrow> replaceRuns p r s = hd s # replaceRuns p r (tl s)"
  by (cases s) auto

lemma dropWhile_head: "dropWhile p s = [] \<or> \<not> p (hd (dropWhile p s))"
  using hd_dropWhile by blast

lemma adjacent_Cons:
  "adjacent p (x # s) = ((s \<noteq> [] \<and> p x \<and> p (hd s)) \<or> adjacent p s)"
  by (cases s) auto

lemma replaceRuns_no_adjacent: "\<not> adjacent (\<lambda>c. c = h) (replaceRuns (\<lambda>c. c = h) [h] s)"
proof (induction "\<lambda>c::nat. c = h" "[h]" s rule: replaceRuns.induct)
  case 1
  show ?case by simp
next
  case (2 c cs)
  show ?case
  proof (cases "c = h")
    case True
    let ?d = "dropWhile (\<lambda>c. c = h) cs"
    have ih: "\<not> adjacent (\<lambda>c. c = h) (replaceRuns (\<lambda>c. c = h) [h] ?d)"
      using 2(1)[OF True] .
    have step: "replaceRuns (\<lambda>c. c = h) [h] (c # cs)
        = h # replaceRuns (\<lambda>c. c = h) [h] ?d"
      using True by simp
    show ?thesis
    proof (cases "?d = []")
      case True
      then have "replaceRuns (\<lambda>c. c = h) [h] ?d = []"
        by (simp only: replaceRuns.simps)
      with step show ?thesis by (simp only: adjacent.simps not_False_eq_True)
    next
      case False
      then have n: "hd ?d \<noteq> h"
        using dropWhile_head[of "\<lambda>c. c = h" cs] by blast
      have "replaceRuns (\<lambda>c. c = h) [h] ?d
          = hd ?d # replaceRuns (\<lambda>c. c = h) [h] (tl ?d)"
        using replaceRuns_head[OF False, of "\<lambda>c. c = h" "[h]"] n by blast
      with ih n step show ?thesis by (simp only: adjacent_Cons list.sel) simp
    qed
  next
    case False
    with 2(2)[OF False] show ?thesis by (simp add: adjacent_Cons)
  qed
qed

lemma replaceRuns_single:
  "\<not> adjacent (\<lambda>c. c = h) s \<Longrightarrow> replaceRuns (\<lambda>c. c = h) [h] s = s"
proof (induction "\<lambda>c::nat. c = h" "[h]" s rule: replaceRuns.induct)
  case 1
  show ?case by simp
next
  case (2 c cs)
  show ?case
  proof (cases "c = h")
    case True
    from 2(3) True have hd: "cs = [] \<or> hd cs \<noteq> h" and rest: "\<not> adjacent (\<lambda>c. c = h) cs"
      by (auto simp: adjacent_Cons)
    from hd have d: "dropWhile (\<lambda>c. c = h) cs = cs"
      by (cases cs) auto
    with 2(1)[OF True] rest True show ?thesis by simp
  next
    case False
    with 2(2)[OF False] 2(3) show ?thesis by (simp add: adjacent_Cons)
  qed
qed

lemma toLowerCase_fixed: "list_all (\<lambda>c. lowerUnit c = [c]) s \<Longrightarrow> toLowerCase s = s"
  by (induction s) (auto simp: toLowerCase_def)

lemma isHyphen_eq: "isHyphen = (\<lambda>c. c = 45)"
  by (auto simp: isHyphen_def)

text \<open>
  The shape of every derived name: lower-case letters, digits and hyphens only, no two
  hyphens in a row; the closing \<open>trim\<close> finds no white space to remove.
\<close>

lemma generateFileName_untrimmed:
  "generateFileName t =
     replaceRuns isHyphen (js ''-'')
       (replaceRuns isWhiteSpace (js ''-'')
         (removeOutside isSlugChar (toLowerCase t)))"
proof -
  let ?a = "removeOutside isSlugChar (toLowerCase t)"
  let ?b = "replaceRuns isWhiteSpace (js ''-'') ?a"
  let ?c = "replaceRuns isHyphen (js ''-'') ?b"
  have "set ?b \<subseteq> {45} \<union> {c \<in> set ?a. \<not> isWhiteSpace c}"
    using replaceRuns_members[of isWhiteSpace "js ''-''" ?a] by (simp add: js_hyphen)
  moreover have "set ?c \<subseteq> {45} \<union> set ?b"
    using replaceRuns_members[of isHyphen "js ''-''" ?b] by (auto simp: js_hyphen)
  moreover have "\<not> isWhiteSpace 45"
    by (simp add: isWhiteSpace_def)
  ultimately have "\<forall>c \<in> set ?c. \<not> isWhiteSpace c"
    by blast
  then have "trim ?c = ?c"
    by (intro trim_none) (simp add: list_all_iff)
  then show ?thesis by (simp add: generateFileName_def)
qed

lemma generateFileName_chars:
  "list_all (\<lambda>c. isLowerAlnum c \<or> isHyphen c) (generateFileName t)"
proof -
  let ?a = "removeOutside isSlugChar (toLowerCase t)"
  let ?b = "replaceRuns isWhiteSpace (js ''-'') ?a"
  let ?c = "replaceRuns isHyphen (js ''-'') ?b"
  have a: "\<forall>c \<in> set ?a. isSlugChar c"
    by (simp add: removeOutside_def)
  have "set ?b \<subseteq> {45} \<union> {c \<in> set ?a. \<not> isWhiteSpace c}"
    using replaceRuns_members[of isWhiteSpace "js ''-''" ?a] by (simp add: js_hyphen)
  with a have b: "\<forall>c \<in> set ?b. isLowerAlnum c \<or> isHyphen c"
    by (auto simp: isSlugChar_def isHyphen_def)
  have "set ?c \<subseteq> {45} \<union> set ?b"
    using replaceRuns_members[of isHyphen "js ''-''" ?b] by (auto simp: js_hyphen)
  with b have "\<forall>c \<in> set ?c. isLowerAlnum c \<or> isHyphen c"
    by (auto simp: isHyphen_def)
  then show ?thesis
    by (simp add: generateFileName_untrimmed list_all_iff)
qed

lemma generateFileName_no_double_hyphen: "\<not> adjacent isHyphen (generateFileName t)"
  by (simp add: generateFileName_untrimmed isHyphen_eq js_hyphen replaceRuns_no_adjacent)

section \<open>Properties of the renderer\<close>

lemma trailingNewlines_append: "trailingNewlines (s @ [10, 10]) = trailingNewlines s + 2"
  by (simp add: trailingNewlines_def)

lemma trailingNewlines_zero: "s = [] \<or> last s \<noteq> 10 \<Longrightarrow> trailingNewlines s = 0"
  by (cases s rule: rev_cases) (auto simp: trailingNewlines_def)

lemma trailingNewlines_pos: "s \<noteq> [] \<Longrightarrow> last s = 10 \<Longrightarrow> 0 < trailingNewlines s"
  by (cases s rule: rev_cases) (auto simp: trailingNewlines_def)








lemmas slug_eval = generateFileName_def js_def toLowerCase_def lowerUnit_def
  removeOutside_def isSlugChar_def isLowerAlnum_def isWhiteSpace_def isHyphen_def trim_def
  trimHyphens_def

lemma generateFileName_hello_world:
  "generateFileName (js ''Hello, World!'') = js ''hello-world''"
  by (simp add: slug_eval)

section \<open>Properties of the document builder\<close>

lemma ownKeysOrder_set: "set (ownKeysOrder obj) = set obj"
  by (auto simp: ownKeysOrder_def)

lemma ownKeysOrder_distinct:
  assumes "distinct (map fst obj)"
  shows "distinct (map fst (ownKeysOrder obj))"
proof -
  let ?A = "filter (\<lambda>(k, v). arrayIndex k \<noteq> None) obj"
  let ?B = "filter (\<lambda>(k, v). arrayIndex k = None) obj"
  from assms have d: "distinct obj" and i: "inj_on fst (set obj)"
    by (simp_all add: distinct_map)
  have a: "distinct (map fst (sort_key (\<lambda>(k, v). the (arrayIndex k)) ?A))"
    using d i by (auto simp: distinct_map intro: inj_on_subset)
  have b: "distinct (map fst ?B)"
    using assms by (rule distinct_map_filter)
  have c: "fst ` set ?A \<inter> fst ` set ?B = {}"
    by auto
  from a b c show ?thesis
    by (auto simp: ownKeysOrder_def)
qed

lemma map_of_ownKeysOrder:
  assumes "distinct (map fst obj)"
  shows "map_of (ownKeysOrder obj) = map_of obj"
proof -
  have "distinct (map fst (ownKeysOrder obj))"
    using assms by (rule ownKeysOrder_distinct)
  then show ?thesis
    using assms by (simp add: map_of_inject_set ownKeysOrder_set)
qed

lemma ownKeysOrder_plain:
  "list_all (\<lambda>(k, v). arrayIndex k = None) obj \<Longrightarrow> ownKeysOrder obj = obj"
proof -
  assume a: "list_all (\<lambda>(k, v). arrayIndex k = None) obj"
  then have "filter (\<lambda>(k, v). arrayIndex k = None) obj = obj"
    by (simp add: list_all_iff)
  moreover from a have "filter (\<lambda>(k, v). arrayIndex k \<noteq> None) obj = []"
    by (induction obj) auto
  ultimately show ?thesis
    by (simp add: ownKeysOrder_def)
qed

lemma fold_update_distinct:
  "distinct (map fst obj) \<Longrightarrow>
     distinct (map fst (fold (\<lambda>(k, v) acc. AList.update k v acc) extra obj))"
  by (induction extra arbitrary: obj) (auto simp: distinct_update)

lemma map_of_fold_update:
  "map_of (fold (\<lambda>(k, v) acc. AList.update k v acc) extra obj) = map_of obj ++ map_of (rev extra)"
proof (induction extra arbitrary: obj)
  case Nil
  show ?case by simp
next
  case (Cons kv extra)
  obtain k v where kv: "kv = (k, v)" by (cases kv)
  have "map_of (fold (\<lambda>(k, v) acc. AList.update k v acc) (kv # extra) obj)
      = map_of (AList.update k v obj) ++ map_of (rev extra)"
    using Cons.IH by (simp add: kv)
  also have "\<dots> = map_of obj ++ map_of (rev (kv # extra))"
    by (simp add: kv update_conv' map_of_append map_add_upd_left fun_eq_iff map_add_def split: option.splits)
  finally show ?case .
qed

lemma map_of_spread:
  "distinct (map fst obj) \<Longrightarrow> map_of (spread obj extra) = map_of obj ++ map_of (rev extra)"
  by (simp add: spread_def map_of_ownKeysOrder fold_update_distinct map_of_fold_update)

lemma beforeFirst_split:
  "\<exists>rest. s = beforeFirst sep s @ rest \<and> (rest = [] \<or> take (length sep) rest = sep)"
  by (induction s) auto

lemma beforeFirst_first:
  "i < length (beforeFirst sep s) \<Longrightarrow> take (length sep) (drop i s) \<noteq> sep"
proof (induction s arbitrary: i)
  case Nil
  then show ?case by simp
next
  case (Cons c cs)
  show ?case
  proof (cases "take (length sep) (c # cs) = sep")
    case True
    with Cons.prems show ?thesis by simp
  next
    case False
    show ?thesis
    proof (cases i)
      case 0
      with False show ?thesis by simp
    next
      case (Suc j)
      with Cons.prems False have "j < length (beforeFirst sep cs)" by simp
      from Cons.IH[OF this] Suc show ?thesis by simp
    qed
  qed
qed

lemma beforeFirst_char:
  "list_all (\<lambda>c. c \<noteq> t) d \<Longrightarrow> beforeFirst [t] (d @ t # rest) = d"
  by (induction d) auto

lemma map_of_rev_None: "map_of (rev xs) k = None \<longleftrightarrow> map_of xs k = None"
  by (simp add: map_of_eq_None_iff)

lemma pad_length: "length (pad w n) = w"
  by (induction w arbitrary: n) auto

lemma pad_digits: "list_all isDigit (pad w n)"
  by (induction w arbitrary: n) (auto simp: isDigit_def)

lemma yearText_chars: "list_all (\<lambda>c. isDigit c \<or> c = 45 \<or> c = 43) (yearText y)"
  using pad_digits[of 4 "nat y"] pad_digits[of 6 "nat \<bar>y\<bar>"]
  by (auto simp: yearText_def js_def list_all_iff)

lemma isoDate_chars: "list_all (\<lambda>c. isDigit c \<or> c = 45 \<or> c = 43) (isoDate t)"
  using yearText_chars[of "utcYear t"] pad_digits[of 2 "utcMonth t"] pad_digits[of 2 "utcDay t"]
  by (auto simp: isoDate_def js_def list_all_iff)

lemma isoDate_no_T: "list_all (\<lambda>c. c \<noteq> 84) (isoDate t)"
  using isoDate_chars[of t] by (auto simp: list_all_iff isDigit_def)

lemma isoOfTime_date: "beforeFirst (js ''T'') (isoOfTime t) = isoDate t"
  using beforeFirst_char[OF isoDate_no_T, of t "isoClock t"]
  by (simp add: isoOfTime_def js_def)

lemma isoDate_isDate: "isDate (isoDate t) \<longleftrightarrow> 0 \<le> utcYear t \<and> utcYear t \<le> 9999"
proof (cases "0 \<le> utcYear t \<and> utcYear t \<le> 9999")
  case True
  then have "isoDate t = pad 4 (nat (utcYear t)) @ [45] @ pad 2 (utcMonth t) @ [45] @ pad 2 (utcDay t)"
    by (simp add: isoDate_def yearText_def js_def)
  then have "isDate (isoDate t)"
    using pad_digits[of 4 "nat (utcYear t)"] pad_digits[of 2 "utcMonth t"]
      pad_digits[of 2 "utcDay t"]
    by (simp add: isDate_def pad_length nth_append)
  with True show ?thesis by simp
next
  case False
  then have "length (isoDate t) = 13"
    by (simp add: isoDate_def yearText_def js_def pad_length)
  then have "\<not> isDate (isoDate t)" by (simp add: isDate_def)
  with False show ?thesis by simp
qed

lemma pad_1: "pad 1 n = [48 + n mod 10]"
  by simp

lemma pad_2: "pad 2 n = pad 1 (n div 10) @ [48 + n mod 10]"
proof -
  have "(2::nat) = Suc 1" by simp
  then show ?thesis by (simp only: pad.simps)
qed

lemma pad_3: "pad 3 n = pad 2 (n div 10) @ [48 + n mod 10]"
proof -
  have "(3::nat) = Suc 2" by simp
  then show ?thesis by (simp only: pad.simps)
qed

lemma pad_4: "pad 4 n = pad 3 (n div 10) @ [48 + n mod 10]"
proof -
  have "(4::nat) = Suc 3" by simp
  then show ?thesis by (simp only: pad.simps)
qed

lemma pad_5: "pad 5 n = pad 4 (n div 10) @ [48 + n mod 10]"
proof -
  have "(5::nat) = Suc 4" by simp
  then show ?thesis by (simp only: pad.simps)
qed

lemma pad_6: "pad 6 n = pad 5 (n div 10) @ [48 + n mod 10]"
proof -
  have "(6::nat) = Suc 5" by simp
  then show ?thesis by (simp only: pad.simps)
qed

lemmas date_eval = isoOfTime_def isoDate_def isoClock_def msOfDay_def utcYear_def utcMonth_def
  utcDay_def dayOfEra_def yearOfEra_def dayOfYear_def monthIndex_def yearText_def
  pad_1 pad_2 pad_3 pad_4 pad_5 pad_6 js_def

lemma isoOfTime_examples:
  "isoOfTime 0 = js ''1970-01-01T00:00:00.000Z''"
  "isoOfTime 1709632800000 = js ''2024-03-05T10:00:00.000Z''"
  "isoOfTime 951868799999 = js ''2000-02-29T23:59:59.999Z''"
  "isoOfTime (- 1) = js ''1969-12-31T23:59:59.999Z''"
  "isoOfTime (- 62135596800000) = js ''0001-01-01T00:00:00.000Z''"
  "isoOfTime 253402300800000 = js ''+010000-01-01T00:00:00.000Z''"
  "isoOfTime (- 62198755200000) = js ''-000001-01-01T00:00:00.000Z''"
  "isoOfTime 4107542399000 = js ''2100-02-28T23:59:59.000Z''"
  "isoOfTime 4107542400000 = js ''2100-03-01T00:00:00.000Z''"
  by (simp_all add: date_eval)

lemma trim_last: "trim s \<noteq> [] \<Longrightarrow> \<not> isWhiteSpace (last (trim s))"
proof -
  assume a: "trim s \<noteq> []"
  let ?r = "dropWhile isWhiteSpace (rev (dropWhile isWhiteSpace s))"
  from a have ne: "?r \<noteq> []" by (simp add: trim_def)
  then have "\<not> isWhiteSpace (hd ?r)" by (rule hd_dropWhile)
  moreover have "last (trim s) = hd ?r"
    using ne by (simp add: trim_def last_rev)
  ultimately show ?thesis by simp
qed

lemma newline_trim: "newline (trim s) = trim s @ [10]"
  using trim_last[of s] by (auto simp: newline_def isWhiteSpace_def)

lemma stringify_frame:
  "stringify rt data =
     (if trim (yamlDump rt data) = js ''{}'' then [10]
      else js ''---'' @ [10] @ trim (yamlDump rt data) @ [10] @ js ''---'' @ [10, 10])"
  by (simp add: stringify_def Let_def newline_trim) (simp add: newline_def js_def)

lemma beforeFirst_append:
  assumes "\<not> occursIn sep p" and "sep \<noteq> []" and "hd sep \<notin> set (tl sep)"
  shows "beforeFirst sep (p @ sep @ rest) = p"
  using assms(1)
proof (induction p)
  case Nil
  from assms(2) obtain a as where "sep = a # as" by (cases sep) auto
  then show ?case by simp
next
  case (Cons c cs)
  from Cons.prems have n: "take (length sep) (c # cs) \<noteq> sep" and r: "\<not> occursIn sep cs"
    by simp_all
  have "take (length sep) ((c # cs) @ sep @ rest) \<noteq> sep"
  proof
    assume e: "take (length sep) ((c # cs) @ sep @ rest) = sep"
    show False
    proof (cases "length sep \<le> length (c # cs)")
      case True
      have "take (length sep) ((c # cs) @ sep @ rest)
          = take (length sep) (c # cs) @ take (length sep - length (c # cs)) (sep @ rest)"
        by (rule take_append)
      also have "\<dots> = take (length sep) (c # cs)"
        using True by simp
      finally show False using e n by simp
    next
      case False
      then have l: "length (c # cs) < length sep" by simp
      from e have "sep ! length (c # cs) = (take (length sep) ((c # cs) @ sep @ rest)) ! length (c # cs)"
        by simp
      also have "\<dots> = ((c # cs) @ sep @ rest) ! length (c # cs)"
        using l by simp
      also have "\<dots> = hd sep"
        using assms(2) by (cases sep) simp_all
      finally have "sep ! length (c # cs) = hd sep" .
      moreover have "sep ! length (c # cs) \<in> set (tl sep)"
        using l by (cases sep) (auto simp: nth_Cons')
      ultimately show False using assms(3) by simp
    qed
  qed
  with Cons.IH[OF r] show ?case by simp
qed

lemma beforeFirst_Nil_iff:
  "sep \<noteq> [] \<Longrightarrow> beforeFirst sep s = [] \<longleftrightarrow> s = [] \<or> take (length sep) s = sep"
  by (cases s) auto

lemma matterData_document:
  assumes n: "\<not> occursIn (js ''\<newline>---'') ([10] @ y)"
    and b: "trim (removeComments True ([10] @ y)) \<noteq> []"
  shows "matterData rt (js ''---'' @ [10] @ y @ [10] @ js ''---'' @ rest)
     = Some (yamlLoad rt ([10] @ y))"
proof -
  let ?doc = "js ''---'' @ [10] @ y @ [10] @ js ''---'' @ rest"
  have s: "stripBom ?doc = ?doc"
    by (simp add: stripBom_def js_def)
  have d: "drop 3 ?doc = ([10] @ y) @ js ''\<newline>---'' @ rest"
    by (simp add: js_def)
  have m: "beforeFirst (js ''\<newline>---'') (([10] @ y) @ js ''\<newline>---'' @ rest) = [10] @ y"
    using n by (rule beforeFirst_append) (simp_all add: js_def)
  have t: "take 3 ?doc = js ''---''"
    by (simp add: js_def)
  have l: "trim [] = []"
    by (simp add: trim_def)
  show ?thesis
    unfolding matterData_def Let_def s d t m
    using b by (simp add: l js_def del: removeComments.simps)
qed

section \<open>Properties of the hosting service and the writers\<close>

lemma overlay_map_add: "overlay m entries = m ++ map_of (rev entries)"
proof (induction entries arbitrary: m)
  case Nil
  show ?case by (simp add: overlay_def)
next
  case (Cons e entries)
  obtain p c where e: "e = (p, c)" by (cases e)
  have "overlay m (e # entries) = overlay (m(p \<mapsto> c)) entries"
    by (simp add: overlay_def e)
  also have "\<dots> = m(p \<mapsto> c) ++ map_of (rev entries)"
    by (rule Cons.IH)
  also have "\<dots> = m ++ map_of (rev (e # entries))"
    by (simp add: e map_of_append fun_eq_iff map_add_def split: option.splits)
  finally show ?case .
qed

lemma overlay_present: "p \<in> fst ` set entries \<Longrightarrow> overlay m entries p \<noteq> None"
proof -
  assume "p \<in> fst ` set entries"
  then have "p \<in> dom (map_of (rev entries))"
    by (simp add: dom_map_of_conv_image_fst)
  then show ?thesis
    by (auto simp: overlay_map_add map_add_def split: option.splits)
qed

lemma overlay_absent: "p \<notin> fst ` set entries \<Longrightarrow> overlay m entries p = m p"
proof -
  assume "p \<notin> fst ` set entries"
  then have "map_of (rev entries) p = None"
    by (simp add: map_of_eq_None_iff)
  then show ?thesis
    by (simp add: overlay_map_add map_add_def)
qed

lemma overlay_distinct:
  "distinct (map fst entries) \<Longrightarrow> (p, c) \<in> set entries \<Longrightarrow> overlay m entries p = Some c"
proof -
  assume d: "distinct (map fst entries)" and i: "(p, c) \<in> set entries"
  from d have "distinct (map fst (rev entries))"
    by (simp add: rev_map[symmetric])
  with i have "map_of (rev entries) p = Some c"
    by (intro map_of_is_SomeI) simp_all
  then show ?thesis
    by (simp add: overlay_map_add map_add_def)
qed

lemma api_getRef_effect:
  assumes "api_getRef ref s = (r, s1)"
  shows "s1 = s\<lparr>requests := requests s @ [GetRef ref]\<rparr>
     \<and> (case r of Inl e \<Rightarrow> True | Inr c \<Rightarrow> refs s ref = Some c)"
  using assms by (auto simp: api_getRef_def issue_def split: if_splits option.splits)

lemma api_createTree_effect:
  assumes "api_createTree entries base s = (r, s1)"
  shows "case r of
           Inl e \<Rightarrow> s1 = s\<lparr>requests := requests s @ [CreateTree entries base]\<rparr>
         | Inr t \<Rightarrow> t = fresh s \<and> (\<exists>before. baseFiles s base = Some before
               \<and> s1 = s\<lparr>requests := requests s @ [CreateTree entries base],
                       trees := (trees s)(fresh s \<mapsto> overlay before entries),
                       fresh := fresh s + 1\<rparr>)"
  using assms
  by (auto simp: api_createTree_def issue_def baseFiles_def split: if_splits option.splits)

lemma api_createCommit_effect:
  assumes "api_createCommit msg tree parents s = (r, s1)"
  shows "case r of
           Inl e \<Rightarrow> s1 = s\<lparr>requests := requests s @ [CreateCommit msg tree parents]\<rparr>
         | Inr c \<Rightarrow> c = fresh s
               \<and> s1 = s\<lparr>requests := requests s @ [CreateCommit msg tree parents],
                       commits := (commits s)(fresh s \<mapsto>
                         \<lparr>commit_message = msg, commit_tree = tree, commit_parents = parents\<rparr>),
                       fresh := fresh s + 1\<rparr>"
  using assms
  by (auto simp: api_createCommit_def issue_def split: if_splits option.splits)

lemma api_updateRef_effect:
  assumes "api_updateRef ref c s = (r, s1)"
  shows "case r of
           Inl e \<Rightarrow> s1 = s\<lparr>requests := requests s @ [UpdateRef ref c]\<rparr>
         | Inr u \<Rightarrow> s1 = s\<lparr>requests := requests s @ [UpdateRef ref c],
                       refs := (refs s)(ref \<mapsto> c)\<rparr>"
  using assms
  by (auto simp: api_updateRef_def issue_def split: if_splits option.splits)

lemma pushFiles_closed:
  "pushFiles cfg rt files s =
     (let n = length (requests s);
          ref = branchRef cfg;
          entries = map (\<lambda>f. (file_path f, file_content f)) files
      in case refs s ref of
           None \<Rightarrow> (Inl pushFailed, s\<lparr>requests := requests s @ [GetRef ref]\<rparr>)
         | Some base \<Rightarrow>
             (let treeReq = CreateTree entries base;
                  commitReq = CreateCommit (commitMessage rt) (fresh s) [base];
                  refReq = UpdateRef ref (fresh s + 1);
                  newCommit = \<lparr>commit_message = commitMessage rt, commit_tree = fresh s,
                               commit_parents = [base]\<rparr>
              in if faulty s n
                 then (Inl pushFailed, s\<lparr>requests := requests s @ [GetRef ref]\<rparr>)
                 else case baseFiles s base of
                   None \<Rightarrow>
                     (Inl pushFailed, s\<lparr>requests := requests s @ [GetRef ref, treeReq]\<rparr>)
                 | Some before \<Rightarrow>
                     if faulty s (n + 1)
                     then (Inl pushFailed, s\<lparr>requests := requests s @ [GetRef ref, treeReq]\<rparr>)
                     else if faulty s (n + 2)
                     then (Inl pushFailed,
                           s\<lparr>requests := requests s @ [GetRef ref, treeReq, commitReq],
                             trees := (trees s)(fresh s \<mapsto> overlay before entries),
                             fresh := fresh s + 1\<rparr>)
                     else if faulty s (n + 3)
                     then (Inl pushFailed,
                           s\<lparr>requests := requests s @ [GetRef ref, treeReq, commitReq, refReq],
                             trees := (trees s)(fresh s \<mapsto> overlay before entries),
                             commits := (commits s)(fresh s + 1 \<mapsto> newCommit),
                             fresh := fresh s + 2\<rparr>)
                     else (Inr (),
                           s\<lparr>requests := requests s @ [GetRef ref, treeReq, commitReq, refReq],
                             trees := (trees s)(fresh s \<mapsto> overlay before entries),
                             commits := (commits s)(fresh s + 1 \<mapsto> newCommit),
                             refs := (refs s)(ref \<mapsto> fresh s + 1),
                             fresh := fresh s + 2\<rparr>)))"
  by (simp add: pushFiles_def createTree_def api_getRef_def api_createTree_def
      api_createCommit_def api_updateRef_def issue_def baseFiles_def Let_def
      numeral_3_eq_3 numeral_2_eq_2 split: option.splits)

lemma overlay_covers:
  "list_all (\<lambda>f. overlay before (map (\<lambda>f. (file_path f, file_content f)) files)
       (file_path f) \<noteq> None) files
   \<and> (distinct (map file_path files) \<longrightarrow>
        list_all (\<lambda>f. overlay before (map (\<lambda>f. (file_path f, file_content f)) files)
          (file_path f) = Some (file_content f)) files)
   \<and> (\<forall>p. p \<notin> file_path ` set files \<longrightarrow>
        overlay before (map (\<lambda>f. (file_path f, file_content f)) files) p = before p)"
proof -
  define entries where "entries = map (\<lambda>f. (file_path f, file_content f)) files"
  let ?after = "overlay before entries"
  have paths: "fst ` set entries = file_path ` set files"
    by (force simp: entries_def)
  have a1: "list_all (\<lambda>f. ?after (file_path f) \<noteq> None) files"
    using overlay_present[of _ entries before] paths
    by (auto simp: list_all_iff)
  have a2: "distinct (map file_path files) \<longrightarrow>
           list_all (\<lambda>f. ?after (file_path f) = Some (file_content f)) files"
  proof
    assume "distinct (map file_path files)"
    then have d: "distinct (map fst entries)"
      by (simp add: entries_def comp_def)
    show "list_all (\<lambda>f. ?after (file_path f) = Some (file_content f)) files"
      unfolding list_all_iff
    proof
      fix f assume "f \<in> set files"
      then have "(file_path f, file_content f) \<in> set entries"
        by (auto simp: entries_def)
      with d show "?after (file_path f) = Some (file_content f)"
        by (rule overlay_distinct)
    qed
  qed
  have a3: "\<forall>p. p \<notin> file_path ` set files \<longrightarrow> ?after p = before p"
    using overlay_absent[of _ entries before] paths by auto
  from a1 a2 a3 show ?thesis
    unfolding entries_def by blast
qed

lemmas api_eval = pushFiles_def createTree_def api_getRef_def api_createTree_def
  api_createCommit_def api_updateRef_def issue_def baseFiles_def overlay_def branchRef_def
  commitMessage_def

lemmas writer_eval = createOrUpdateFile_def getFileContent_def getFileSha_def
  api_getContent_def api_putContent_def issue_def writeFailed_def notFound_def
  unavailable_def unprocessable_def conflict_def

lemma createOrUpdateFile_missing:
  assumes "contents s p = None"
    and "\<not> faulty s (length (requests s))" and "\<not> faulty s (Suc (length (requests s)))"
  shows "createOrUpdateFile p t msg s =
     (Inr (), s\<lparr>requests := requests s @ [GetContent p, PutContent p msg t None],
               contents := (contents s)(p \<mapsto> File t (fresh s)), fresh := fresh s + 1\<rparr>)"
  using assms by (simp add: writer_eval)

lemma createOrUpdateFile_existing:
  assumes "contents s p = Some (File old b)" and "old \<noteq> []"
    and "\<not> faulty s (length (requests s))" and "\<not> faulty s (Suc (length (requests s)))"
    and "\<not> faulty s (Suc (Suc (length (requests s))))"
  shows "createOrUpdateFile p t msg s =
     (Inr (), s\<lparr>requests := requests s @ [GetContent p, GetContent p, PutContent p msg t (Some b)],
               contents := (contents s)(p \<mapsto> File t (fresh s)), fresh := fresh s + 1\<rparr>)"
  using assms by (simp add: writer_eval)

lemma createOrUpdateFile_lookup_fails:
  assumes "faulty s (length (requests s))"
  shows "createOrUpdateFile p t msg s =
     (Inl (writeFailed p), s\<lparr>requests := requests s @ [GetContent p]\<rparr>)"
  using assms by (simp add: writer_eval)

section \<open>Properties of the sync modes\<close>

lemma quote_char: "js ''\"'' = [34]"
  by (simp add: js_def)

lemma getPageContent_fetch_failed:
  "blocks_children_list nc pageId = Inl e \<Longrightarrow> getPageContent nc pageId = []"
  by (simp add: getPageContent_def)

lemma collectPages_all:
  "list_all (\<lambda>r. obj_properties r \<noteq> None) results \<Longrightarrow>
     map page_id (collectPages nc rt results) = map obj_id results
     \<and> map content (collectPages nc rt results) = map (\<lambda>r. getPageContent nc (obj_id r)) results"
  by (induction results) auto

lemma convertToMDX_ok:
  "toISOString rt (lastEditedTime page) \<noteq> None \<Longrightarrow> \<exists>mdx. convertToMDX rt page fm = Inr mdx"
  by (auto simp: convertToMDX_def Let_def)

lemma convertPages_all_ok:
  "list_all (\<lambda>p. toISOString rt (lastEditedTime p) \<noteq> None) pages \<Longrightarrow>
     \<exists>new. convertPages rt cfg files errs pages = (files @ new, errs)
       \<and> map file_path new = map (filePathOf cfg) pages"
proof (induction pages arbitrary: files)
  case Nil
  show ?case by simp
next
  case (Cons page pages)
  then obtain mdx where m: "convertToMDX rt page [] = Inr mdx"
    using convertToMDX_ok[of rt page "[]"] by auto
  let ?f = "\<lparr>file_path = filePathOf cfg page, file_content = mdx,
             file_message = updateMessage page\<rparr>"
  from Cons obtain new where
    n: "convertPages rt cfg (files @ [?f]) errs pages = ((files @ [?f]) @ new, errs)"
    and p: "map file_path new = map (filePathOf cfg) pages"
    by fastforce
  from m n have "convertPages rt cfg files errs (page # pages) = (files @ (?f # new), errs)"
    by simp
  moreover have "map file_path (?f # new) = map (filePathOf cfg) (page # pages)"
    using p by simp
  ultimately show ?case by blast
qed

lemma pushFiles_succeeds:
  assumes "\<forall>n. \<not> faulty s n" and "refs s (branchRef cfg) = Some base"
    and "baseFiles s base = Some before"
  shows "fst (pushFiles cfg rt files s) = Inr ()
     \<and> requests (snd (pushFiles cfg rt files s)) = requests s @
         [GetRef (branchRef cfg),
          CreateTree (map (\<lambda>f. (file_path f, file_content f)) files) base,
          CreateCommit (commitMessage rt) (fresh s) [base],
          UpdateRef (branchRef cfg) (fresh s + 1)]"
proof -
  from assms(3) have b: "(case commits s base of None \<Rightarrow> trees s base
      | Some c \<Rightarrow> trees s (commit_tree c)) = Some before"
    by (simp add: baseFiles_def)
  show ?thesis
    using assms(1,2) b
    by (simp add: pushFiles_def createTree_def api_getRef_def api_createTree_def
      api_createCommit_def api_updateRef_def issue_def baseFiles_def
      cong: option.case_cong)
qed

lemma exampleNotion_results:
  "databases_query exampleNotion (notionDatabaseId exampleConfig)
     = Inr [exampleObject ''p1'' ''One'', exampleObject ''p2'' ''Two'',
            exampleObject ''p3'' ''Three'']"
  by (simp add: exampleNotion_def exampleConfig_def)

lemma exampleNotion_dates:
  "list_all (\<lambda>p. toISOString exampleRuntime (lastEditedTime p) \<noteq> None)
     (collectPages exampleNotion exampleRuntime
       [exampleObject ''p1'' ''One'', exampleObject ''p2'' ''Two'',
        exampleObject ''p3'' ''Three''])"
proof -
  have "js ''2024-03-05T10:00:00.000Z'' \<noteq> []"
    by (simp add: js_def)
  then show ?thesis
    by (simp add: exampleObject_def exampleRuntime_def toISOString_def)
qed

lemma exampleNotion_pages:
  "collectPages exampleNotion exampleRuntime
     [exampleObject ''p1'' ''One'', exampleObject ''p2'' ''Two'', exampleObject ''p3'' ''Three'']
   = [\<lparr>page_id = js ''p1'', title = js ''One'', content = js ''Text'' @ [10, 10],
        properties = [(js ''Name'', \<lparr>ptype = js ''title'', ptitle = Some [examplePlain ''One'']\<rparr>)],
        lastEditedTime = js ''2024-03-05T10:00:00.000Z'',
        url = js ''https://www.notion.so/p1''\<rparr>,
      \<lparr>page_id = js ''p2'', title = js ''Two'', content = [],
        properties = [(js ''Name'', \<lparr>ptype = js ''title'', ptitle = Some [examplePlain ''Two'']\<rparr>)],
        lastEditedTime = js ''2024-03-05T10:00:00.000Z'',
        url = js ''https://www.notion.so/p2''\<rparr>,
      \<lparr>page_id = js ''p3'', title = js ''Three'', content = js ''Text'' @ [10, 10],
        properties = [(js ''Name'', \<lparr>ptype = js ''title'', ptitle = Some [examplePlain ''Three'']\<rparr>)],
        lastEditedTime = js ''2024-03-05T10:00:00.000Z'',
        url = js ''https://www.notion.so/p3''\<rparr>]"
  by (simp add: exampleNotion_def exampleObject_def examplePlain_def getPageContent_def
      convertBlocksToMarkdown_def convertBlockToMarkdown_def blockContent_def
      renderParagraph_def richTextOf_def renderRichText_def renderSpan_def js_def)


lemma exampleNotion_files:
  "\<exists>c1 c2 c3. convertPages exampleRuntime exampleConfig [] []
     (collectPages exampleNotion exampleRuntime
       [exampleObject ''p1'' ''One'', exampleObject ''p2'' ''Two'', exampleObject ''p3'' ''Three''])
   = ([\<lparr>file_path = js ''content/posts/one.mdx'', file_content = c1,
         file_message = js ''Update One from Notion''\<rparr>,
       \<lparr>file_path = js ''content/posts/two.mdx'', file_content = c2,
         file_message = js ''Update Two from Notion''\<rparr>,
       \<lparr>file_path = js ''content/posts/three.mdx'', file_content = c3,
         file_message = js ''Update Three from Notion''\<rparr>], [])"
  unfolding exampleNotion_pages
  by (simp add: convertToMDX_def toISOString_def exampleRuntime_def
      filePathOf_def updateMessage_def exampleConfig_def slug_eval)

lemma replaceRuns_all: "list_all p s \<Longrightarrow> replaceRuns p r s = (if s = [] then [] else r)"
proof (cases s)
  case Nil
  then show ?thesis by simp
next
  case (Cons c cs)
  assume "list_all p s"
  with Cons have "p c" and "dropWhile p cs = []"
    by (simp_all add: list_all_iff)
  with Cons show ?thesis
    by (simp del: dropWhile_eq_Nil_conv)
qed

lemma generateFileName_without_slug_chars:
  assumes "list_all (\<lambda>c. \<not> isSlugChar c) (toLowerCase t)"
  shows "generateFileName t = []"
proof -
  from assms have "removeOutside isSlugChar (toLowerCase t) = []"
    by (simp add: removeOutside_def list_all_iff filter_empty_conv)
  then show ?thesis
    by (simp add: generateFileName_untrimmed)
qed

lemma generateFileName_without_alnum:
  assumes "list_all (\<lambda>c. \<not> isLowerAlnum c) (toLowerCase t)"
  shows "generateFileName t = [] \<or> generateFileName t = js ''-''"
proof -
  let ?a = "removeOutside isSlugChar (toLowerCase t)"
  let ?b = "replaceRuns isWhiteSpace (js ''-'') ?a"
  from assms have a: "\<forall>c \<in> set ?a. isWhiteSpace c \<or> isHyphen c"
    by (auto simp: removeOutside_def list_all_iff isSlugChar_def)
  have "set ?b \<subseteq> {45} \<union> {c \<in> set ?a. \<not> isWhiteSpace c}"
    using replaceRuns_members[of isWhiteSpace "js ''-''" ?a] by (simp add: js_hyphen)
  with a have "list_all isHyphen ?b"
    by (auto simp: list_all_iff isHyphen_def)
  then have "replaceRuns isHyphen (js ''-'') ?b = (if ?b = [] then [] else js ''-'')"
    by (rule replaceRuns_all)
  then show ?thesis
    by (simp add: generateFileName_untrimmed)
qed


lemma convertSinglePage_target:
  assumes "getPagesFromDatabase nc rt (notionDatabaseId cfg) = Inr pages"
    and "find (\<lambda>page. page_id page = pageId) pages = Some page"
    and "convertToMDX rt page [] = Inr mdx"
    and "createOrUpdateFile (filePathOf cfg page) mdx (updateMessage page) s = (Inr (), s1)"
  shows "convertSinglePage nc rt cfg pageId s =
     (\<lparr>success = True,
       message = js ''Successfully converted and pushed \"'' @ title page @ js ''\" to GitHub'',
       filesProcessed = Some 1, errors = None\<rparr>, s1)"
  using assms by (simp add: convertSinglePage_def)

section \<open>The claims\<close>

text \<open>
  C6. Deriving a file name is idempotent: deriving the name of an already derived name
  gives that name again, for every title \<open>t\<close>.
\<close>

theorem generateFileName_idempotent:
  "generateFileName (generateFileName t) = generateFileName t"
proof -
  let ?n = "generateFileName t"
  have chars: "list_all (\<lambda>c. isLowerAlnum c \<or> isHyphen c) ?n"
    by (rule generateFileName_chars)
  have "list_all (\<lambda>c. lowerUnit c = [c]) ?n"
    using chars by (auto simp: list_all_iff lowerUnit_def isLowerAlnum_def isHyphen_def)
  then have low: "toLowerCase ?n = ?n"
    by (rule toLowerCase_fixed)
  have keep: "removeOutside isSlugChar ?n = ?n"
    using chars by (auto simp: removeOutside_def list_all_iff isSlugChar_def filter_id_conv)
  have "list_all (\<lambda>c. \<not> isWhiteSpace c) ?n"
    using chars
    by (auto simp: list_all_iff isLowerAlnum_def isHyphen_def isWhiteSpace_def)
  then have ws: "replaceRuns isWhiteSpace (js ''-'') ?n = ?n"
    by (rule replaceRuns_none)
  have hy: "replaceRuns isHyphen (js ''-'') ?n = ?n"
    using generateFileName_no_double_hyphen[of t]
    by (simp add: isHyphen_eq js_hyphen replaceRuns_single)
  show ?thesis
    by (subst generateFileName_untrimmed) (simp add: low keep ws hy)
qed

text \<open>
  C2. A rich-text item is rendered by wrapping its text in the markers of its flags in
  the fixed order bold (\<open>**\<close>), italic (\<open>*\<close>), strikethrough (\<open>~~\<close>), inline
  code (a backquote), bold innermost and code outermost, and then in a link
  \<open>[text](url)\<close> when it has a link target (\<open>href\<close> is a string and not the empty
  one). The items of a block are concatenated with no separator. An item that is bold,
  italic and code (not struck through, no link) is the text between a backquote and three
  asterisks on each side.
\<close>

theorem renderRichText_order:
  "renderRichText (Some spans) = Inr (concat (map renderSpan spans))
   \<and> renderSpan t =
       (let marked =
              (if code t then js ''`'' else []) @ (if strikethrough t then js ''~~'' else [])
              @ (if italic t then js ''*'' else []) @ (if bold t then js ''**'' else [])
              @ plain_text t
              @ (if bold t then js ''**'' else []) @ (if italic t then js ''*'' else [])
              @ (if strikethrough t then js ''~~'' else []) @ (if code t then js ''`'' else [])
        in case href t of
             None \<Rightarrow> marked
           | Some link \<Rightarrow> (if link = [] then marked
                           else js ''['' @ marked @ js '']('' @ link @ js '')''))
   \<and> renderSpan \<lparr>plain_text = text, bold = True, italic = True, strikethrough = False,
          code = True, href = None\<rparr> = js ''`***'' @ text @ js ''***`''
   \<and> renderRichText (Some (xs @ ys))
       = Inr (concat (map renderSpan xs) @ concat (map renderSpan ys))"
proof -
  have a: "renderRichText (Some spans) = Inr (concat (map renderSpan spans))"
    by (simp add: renderRichText_def)
  have b: "renderSpan t =
       (let marked =
              (if code t then js ''`'' else []) @ (if strikethrough t then js ''~~'' else [])
              @ (if italic t then js ''*'' else []) @ (if bold t then js ''**'' else [])
              @ plain_text t
              @ (if bold t then js ''**'' else []) @ (if italic t then js ''*'' else [])
              @ (if strikethrough t then js ''~~'' else []) @ (if code t then js ''`'' else [])
        in case href t of
             None \<Rightarrow> marked
           | Some link \<Rightarrow> (if link = [] then marked
                           else js ''['' @ marked @ js '']('' @ link @ js '')''))"
    by (cases "href t") (simp_all add: renderSpan_def Let_def)
  have c: "renderSpan \<lparr>plain_text = text, bold = True, italic = True, strikethrough = False,
          code = True, href = None\<rparr> = js ''`***'' @ text @ js ''***`''"
    by (simp add: renderSpan_def js_def)
  have d: "renderRichText (Some (xs @ ys))
       = Inr (concat (map renderSpan xs) @ concat (map renderSpan ys))"
    by (simp add: renderRichText_def)
  from a b c d show ?thesis by blast
qed

text \<open>
  C3, as the specification states it, fails: every block's output is said to end with
  exactly two line feeds, whatever its type. A divider's content is the rule with two
  line feeds of its own, so its output ends with four.
\<close>

theorem divider_ends_with_four_newlines:
  "convertBlockToMarkdown \<lparr>btype = js ''divider'', body = None\<rparr>
     = Inr ([10] @ js ''---'' @ [10, 10, 10, 10])
   \<and> trailingNewlines ([10] @ js ''---'' @ [10, 10, 10, 10]) = 4"
  by (simp add: convertBlockToMarkdown_def blockContent_def js_def trailingNewlines_def)

text \<open>
  C3, amended. Whatever the type of the block, its output is its content followed by two
  line feeds, so it ends with two line feeds more than the content does: with exactly two
  when the content does not itself end in a line feed, with more when it does.
\<close>

theorem convertBlockToMarkdown_terminator:
  assumes "convertBlockToMarkdown b = Inr out"
  shows "\<exists>content. blockContent b = Inr content \<and> out = content @ [10, 10]
        \<and> trailingNewlines out = trailingNewlines content + 2
        \<and> (if content \<noteq> [] \<and> last content = 10 then 2 < trailingNewlines out
            else trailingNewlines out = 2)"
proof -
  from assms obtain content
    where c: "blockContent b = Inr content" and o: "out = content @ [10, 10]"
    by (auto simp: convertBlockToMarkdown_def split: sum.splits)
  have t: "trailingNewlines out = trailingNewlines content + 2"
    using o by (simp add: trailingNewlines_append)
  have "if content \<noteq> [] \<and> last content = 10 then 2 < trailingNewlines out
            else trailingNewlines out = 2"
    using t trailingNewlines_zero[of content] trailingNewlines_pos[of content] by auto
  with c o t show ?thesis by blast
qed

theorem convertBlockToMarkdown_terminator_witness:
  "convertBlockToMarkdown
      \<lparr>btype = js ''paragraph'',
       body = Some \<lparr>rich_text = Some [\<lparr>plain_text = js ''Hi'', bold = False, italic = False,
                 strikethrough = False, code = False, href = None\<rparr>],
              language = None, caption = None, kind = None, external_url = None,
              file_url = None\<rparr>\<rparr> = Inr (js ''Hi'' @ [10, 10])
   \<and> trailingNewlines (js ''Hi'' @ [10, 10]) = 2"
proof -
  let ?b = "\<lparr>btype = js ''paragraph'',
       body = Some \<lparr>rich_text = Some [\<lparr>plain_text = js ''Hi'', bold = False, italic = False,
                 strikethrough = False, code = False, href = None\<rparr>],
              language = None, caption = None, kind = None, external_url = None,
              file_url = None\<rparr>\<rparr>"
  have c: "blockContent ?b = Inr (js ''Hi'')"
    by (simp add: blockContent_def renderParagraph_def richTextOf_def renderRichText_def
        renderSpan_def)
  then have e: "convertBlockToMarkdown ?b = Inr (js ''Hi'' @ [10, 10])"
    by (simp add: convertBlockToMarkdown_def)
  from convertBlockToMarkdown_terminator[OF e] c show ?thesis
    using e by (auto simp: js_def)
qed




text \<open>
  C5. The specification has the derived name trimmed of leading and trailing hyphens.
  The code ends with \<open>trim()\<close>, which removes white space, after every run of white
  space has already become a hyphen: it removes nothing (lemma
  \<open>generateFileName_untrimmed\<close>), and a hyphen at either end stays. The title
  \<open>Hello World !\<close> derives to \<open>hello-world-\<close>, where trimming the hyphens gives
  \<open>hello-world\<close>.
\<close>

theorem generateFileName_keeps_trailing_hyphen:
  "generateFileName (js ''Hello World !'') = js ''hello-world-''
   \<and> trimHyphens (generateFileName (js ''Hello World !'')) = js ''hello-world''
   \<and> generateFileName (js ''Hello World !'')
       \<noteq> trimHyphens (generateFileName (js ''Hello World !''))"
  by (simp add: slug_eval)

text \<open>
  C1. \<open>pushFiles\<close> is determined by the repository it finds and by which requests
  fail. It reads the branch ref; on the commit that gave, it creates a tree with every
  input file; it creates a commit of that tree whose sole parent is that commit; it moves
  the branch ref to the new commit. The requests are issued in this order, each with these
  arguments, and the first that fails is the last: the call then throws, and every ref is
  as it was (a tree or a commit created before the failure stays, unreferenced). When none
  fails, the branch points to the one new commit. The new tree is the base with every
  input file in it (with its content, where no two files share a path) and nothing else
  changed.
\<close>

theorem pushFiles_protocol:
  "pushFiles cfg rt files s =
     (let n = length (requests s);
          ref = branchRef cfg;
          entries = map (\<lambda>f. (file_path f, file_content f)) files
      in case refs s ref of
           None \<Rightarrow> (Inl pushFailed, s\<lparr>requests := requests s @ [GetRef ref]\<rparr>)
         | Some base \<Rightarrow>
             (let treeReq = CreateTree entries base;
                  commitReq = CreateCommit (commitMessage rt) (fresh s) [base];
                  refReq = UpdateRef ref (fresh s + 1);
                  newCommit = \<lparr>commit_message = commitMessage rt, commit_tree = fresh s,
                               commit_parents = [base]\<rparr>
              in if faulty s n
                 then (Inl pushFailed, s\<lparr>requests := requests s @ [GetRef ref]\<rparr>)
                 else case baseFiles s base of
                   None \<Rightarrow>
                     (Inl pushFailed, s\<lparr>requests := requests s @ [GetRef ref, treeReq]\<rparr>)
                 | Some before \<Rightarrow>
                     if faulty s (n + 1)
                     then (Inl pushFailed, s\<lparr>requests := requests s @ [GetRef ref, treeReq]\<rparr>)
                     else if faulty s (n + 2)
                     then (Inl pushFailed,
                           s\<lparr>requests := requests s @ [GetRef ref, treeReq, commitReq],
                             trees := (trees s)(fresh s \<mapsto> overlay before entries),
                             fresh := fresh s + 1\<rparr>)
                     else if faulty s (n + 3)
                     then (Inl pushFailed,
                           s\<lparr>requests := requests s @ [GetRef ref, treeReq, commitReq, refReq],
                             trees := (trees s)(fresh s \<mapsto> overlay before entries),
                             commits := (commits s)(fresh s + 1 \<mapsto> newCommit),
                             fresh := fresh s + 2\<rparr>)
                     else (Inr (),
                           s\<lparr>requests := requests s @ [GetRef ref, treeReq, commitReq, refReq],
                             trees := (trees s)(fresh s \<mapsto> overlay before entries),
                             commits := (commits s)(fresh s + 1 \<mapsto> newCommit),
                             refs := (refs s)(ref \<mapsto> fresh s + 1),
                             fresh := fresh s + 2\<rparr>)))
   \<and> refs (snd (pushFiles cfg rt files s)) =
       (if fst (pushFiles cfg rt files s) = Inr ()
        then (refs s)(branchRef cfg \<mapsto> fresh s + 1) else refs s)
   \<and> list_all (\<lambda>f. overlay before (map (\<lambda>f. (file_path f, file_content f)) files)
        (file_path f) \<noteq> None) files
   \<and> (distinct (map file_path files) \<longrightarrow>
        list_all (\<lambda>f. overlay before (map (\<lambda>f. (file_path f, file_content f)) files)
          (file_path f) = Some (file_content f)) files)
   \<and> (\<forall>p. p \<notin> file_path ` set files \<longrightarrow>
        overlay before (map (\<lambda>f. (file_path f, file_content f)) files) p = before p)"
proof -
  have r: "refs (snd (pushFiles cfg rt files s)) =
       (if fst (pushFiles cfg rt files s) = Inr ()
        then (refs s)(branchRef cfg \<mapsto> fresh s + 1) else refs s)"
    by (simp add: pushFiles_closed Let_def pushFailed_def split: option.splits)
  from pushFiles_closed[of cfg rt files s] r overlay_covers[of before files]
  show ?thesis by blast
qed

theorem pushFiles_protocol_witness:
  "fst (pushFiles exampleConfig exampleRuntime [exampleFile] exampleGitHub) = Inr ()
   \<and> refs (snd (pushFiles exampleConfig exampleRuntime [exampleFile] exampleGitHub))
        (js ''heads/main'') = Some 3
   \<and> fst (pushFiles exampleConfig exampleRuntime [exampleFile]
        (exampleGitHub\<lparr>faulty := (\<lambda>n. n = 2)\<rparr>)) = Inl pushFailed
   \<and> refs (snd (pushFiles exampleConfig exampleRuntime [exampleFile]
        (exampleGitHub\<lparr>faulty := (\<lambda>n. n = 2)\<rparr>))) = refs exampleGitHub
   \<and> requests (snd (pushFiles exampleConfig exampleRuntime [exampleFile]
        (exampleGitHub\<lparr>faulty := (\<lambda>n. n = 2)\<rparr>)))
       = [GetRef (js ''heads/main''),
          CreateTree [(js ''content/posts/hello-world.mdx'', js ''Hello'')] 1,
          CreateCommit (commitMessage exampleRuntime) 2 [1]]
   \<and> distinct (map file_path [exampleFile])
   \<and> overlay Map.empty [(js ''content/posts/hello-world.mdx'', js ''Hello'')]
        (js ''content/posts/hello-world.mdx'') = Some (js ''Hello'')"
proof -
  let ?bad = "exampleGitHub\<lparr>faulty := (\<lambda>n. n = 2)\<rparr>"
  have br: "branchRef exampleConfig = js ''heads/main''"
    by (simp add: branchRef_def exampleConfig_def js_def)
  note bad = pushFiles_protocol[of exampleConfig exampleRuntime "[exampleFile]" ?bad Map.empty]
  have a: "fst (pushFiles exampleConfig exampleRuntime [exampleFile] exampleGitHub) = Inr ()"
    by (simp add: api_eval exampleConfig_def exampleGitHub_def exampleFile_def js_def)
  have b: "refs (snd (pushFiles exampleConfig exampleRuntime [exampleFile] exampleGitHub))
        (js ''heads/main'') = Some 3"
    by (simp add: api_eval exampleConfig_def exampleGitHub_def exampleFile_def js_def)
  have c: "fst (pushFiles exampleConfig exampleRuntime [exampleFile] ?bad) = Inl pushFailed"
    by (simp add: api_eval exampleConfig_def exampleGitHub_def exampleFile_def js_def)
  have c1: "refs (snd (pushFiles exampleConfig exampleRuntime [exampleFile] ?bad))
      = refs exampleGitHub"
    using bad[THEN conjunct2, THEN conjunct1] c by simp
  have c2: "requests (snd (pushFiles exampleConfig exampleRuntime [exampleFile] ?bad))
       = [GetRef (js ''heads/main''),
          CreateTree [(js ''content/posts/hello-world.mdx'', js ''Hello'')] 1,
          CreateCommit (commitMessage exampleRuntime) 2 [1]]"
    by (simp add: api_eval exampleConfig_def exampleGitHub_def exampleFile_def js_def)
  have d: "distinct (map file_path [exampleFile])"
    by simp
  from bad[THEN conjunct2, THEN conjunct2, THEN conjunct2, THEN conjunct1] d
  have e: "overlay Map.empty [(js ''content/posts/hello-world.mdx'', js ''Hello'')]
        (js ''content/posts/hello-world.mdx'') = Some (js ''Hello'')"
    by (simp add: exampleFile_def)
  from a b c c1 c2 d e show ?thesis
    by simp
qed

text \<open>
  C8. The specification has the write carry the blob id of the file whenever the file
  exists. The code decides with \<open>if (existingFile)\<close> on the text of the file, and the
  empty text is falsy: for a file that exists and is empty the write is sent without a blob
  id, the service refuses it, and the call fails. \<open>checkFileExists\<close>, which the code
  has and does not call, answers that the file exists. (For a file that is missing, for one
  that is not empty and for a lookup that fails otherwise, the code does as the
  specification says: lemmas \<open>createOrUpdateFile_missing\<close>,
  \<open>createOrUpdateFile_existing\<close> and \<open>createOrUpdateFile_lookup_fails\<close>.)
\<close>

theorem createOrUpdateFile_empty_file_without_sha:
  "contents (exampleGitHub\<lparr>contents := [file_path exampleFile \<mapsto> File [] 2], fresh := 3\<rparr>)
      (file_path exampleFile) = Some (File [] 2)
   \<and> createOrUpdateFile (file_path exampleFile) (file_content exampleFile)
         (file_message exampleFile)
         (exampleGitHub\<lparr>contents := [file_path exampleFile \<mapsto> File [] 2], fresh := 3\<rparr>)
     = (Inl (writeFailed (file_path exampleFile)),
        exampleGitHub\<lparr>contents := [file_path exampleFile \<mapsto> File [] 2], fresh := 3,
          requests := [GetContent (file_path exampleFile),
            PutContent (file_path exampleFile) (file_message exampleFile)
              (file_content exampleFile) None]\<rparr>)
   \<and> fst (checkFileExists (file_path exampleFile)
         (exampleGitHub\<lparr>contents := [file_path exampleFile \<mapsto> File [] 2], fresh := 3\<rparr>))
     = Inr True"
  by (simp add: writer_eval checkFileExists_def exampleGitHub_def)

text \<open>
  C7, as the specification states it, fails. The database has three pages and listing the
  blocks of the second fails: the sync reports three files processed and no errors, where
  the specification has two files and one error naming the second page.
\<close>

theorem three_pages_second_fetch_fails:
  "databases_query exampleNotion (notionDatabaseId exampleConfig)
     = Inr [exampleObject ''p1'' ''One'', exampleObject ''p2'' ''Two'',
            exampleObject ''p3'' ''Three'']
   \<and> blocks_children_list exampleNotion (js ''p2'') = Inl unavailable
   \<and> success (fst (convertAndPush exampleNotion exampleRuntime exampleConfig exampleGitHub))
   \<and> filesProcessed (fst (convertAndPush exampleNotion exampleRuntime exampleConfig
         exampleGitHub)) = Some 3
   \<and> errors (fst (convertAndPush exampleNotion exampleRuntime exampleConfig exampleGitHub))
       = None"
proof -
  have q: "databases_query exampleNotion (notionDatabaseId exampleConfig)
     = Inr [exampleObject ''p1'' ''One'', exampleObject ''p2'' ''Two'',
            exampleObject ''p3'' ''Three'']"
    by (simp add: exampleNotion_def exampleConfig_def)
  have f: "blocks_children_list exampleNotion (js ''p2'') = Inl unavailable"
    by (simp add: exampleNotion_def)
  from exampleNotion_files obtain c1 c2 c3 where c: "convertPages exampleRuntime exampleConfig [] []
     (collectPages exampleNotion exampleRuntime
       [exampleObject ''p1'' ''One'', exampleObject ''p2'' ''Two'', exampleObject ''p3'' ''Three''])
   = ([\<lparr>file_path = js ''content/posts/one.mdx'', file_content = c1,
         file_message = js ''Update One from Notion''\<rparr>,
       \<lparr>file_path = js ''content/posts/two.mdx'', file_content = c2,
         file_message = js ''Update Two from Notion''\<rparr>,
       \<lparr>file_path = js ''content/posts/three.mdx'', file_content = c3,
         file_message = js ''Update Three from Notion''\<rparr>], [])"
    by blast
  have v: "validateRepository exampleGitHub
      = (True, exampleGitHub\<lparr>requests := [ReposGet]\<rparr>)"
    by (simp add: validateRepository_def api_reposGet_def issue_def exampleGitHub_def)
  have p: "fst (pushFiles exampleConfig exampleRuntime
       [\<lparr>file_path = js ''content/posts/one.mdx'', file_content = c1,
         file_message = js ''Update One from Notion''\<rparr>,
       \<lparr>file_path = js ''content/posts/two.mdx'', file_content = c2,
         file_message = js ''Update Two from Notion''\<rparr>,
       \<lparr>file_path = js ''content/posts/three.mdx'', file_content = c3,
         file_message = js ''Update Three from Notion''\<rparr>]
       (exampleGitHub\<lparr>requests := [ReposGet]\<rparr>)) = Inr ()"
    by (simp add: api_eval exampleConfig_def exampleGitHub_def js_def)
  have n: "collectPages exampleNotion exampleRuntime
       [exampleObject ''p1'' ''One'', exampleObject ''p2'' ''Two'', exampleObject ''p3'' ''Three'']
      \<noteq> []"
    by (simp add: exampleObject_def)
  from q v c p n show ?thesis
    using f by (auto simp: convertAndPush_def getPagesFromDatabase_def split: prod.splits sum.splits)
qed

text \<open>
  C7, amended. In a sync of the whole database in which every page is a full page object
  with a valid date and the repository answers, every page yields a file, also a page
  whose block fetch fails: \<open>getPageContent\<close> catches the failure and the page gets the
  empty body. The result reports success, as many files as there are pages (three for
  three pages) and no errors list; one tree with an entry for every page is committed.
\<close>

theorem convertAndPush_fetch_failure:
  assumes q: "databases_query nc (notionDatabaseId cfg) = Inr results"
    and ne: "results \<noteq> []"
    and props: "list_all (\<lambda>r. obj_properties r \<noteq> None) results"
    and dates: "list_all (\<lambda>p. toISOString rt (lastEditedTime p) \<noteq> None)
                  (collectPages nc rt results)"
    and acc: "accessible s" and nf: "\<forall>n. \<not> faulty s n"
    and br: "refs s (branchRef cfg) = Some base" and bf: "baseFiles s base = Some before"
  shows "fst (convertAndPush nc rt cfg s) =
       \<lparr>success = True,
        message = js ''Successfully converted and pushed '' @ showNat (length results)
          @ js '' pages to GitHub'',
        filesProcessed = Some (length results), errors = None\<rparr>
     \<and> (\<exists>entries tree c. requests (snd (convertAndPush nc rt cfg s)) = requests s @
           [ReposGet, GetRef (branchRef cfg), CreateTree entries base,
            CreateCommit (commitMessage rt) tree [base], UpdateRef (branchRef cfg) c]
         \<and> map fst entries = map (filePathOf cfg) (collectPages nc rt results))
     \<and> map page_id (collectPages nc rt results) = map obj_id results
     \<and> list_all (\<lambda>r. (case blocks_children_list nc (obj_id r) of
                         Inl e \<Rightarrow> getPageContent nc (obj_id r) = []
                       | Inr blocks \<Rightarrow> True)) results"
proof -
  let ?pages = "collectPages nc rt results"
  let ?s1 = "s\<lparr>requests := requests s @ [ReposGet]\<rparr>"
  have v: "validateRepository s = (True, ?s1)"
    using acc nf by (simp add: validateRepository_def api_reposGet_def issue_def)
  have g: "getPagesFromDatabase nc rt (notionDatabaseId cfg) = Inr ?pages"
    using q by (simp add: getPagesFromDatabase_def)
  have ids: "map page_id ?pages = map obj_id results"
    using collectPages_all[OF props] by blast
  then have len: "length ?pages = length results"
    using length_map by metis
  with ne have pn: "length ?pages \<noteq> 0" by simp
  from convertPages_all_ok[OF dates, of cfg "[]" "[]"] obtain files where
    c: "convertPages rt cfg [] [] ?pages = (files, [])"
    and fp: "map file_path files = map (filePathOf cfg) ?pages"
    by auto
  from fp have fl: "length files = length results"
    using len length_map by metis
  with ne have fn: "files \<noteq> []" by auto
  have b1: "baseFiles ?s1 base = Some before"
    using bf by (auto simp: baseFiles_def split: option.splits)
  have p: "fst (pushFiles cfg rt files ?s1) = Inr ()
     \<and> requests (snd (pushFiles cfg rt files ?s1)) = requests ?s1 @
         [GetRef (branchRef cfg),
          CreateTree (map (\<lambda>f. (file_path f, file_content f)) files) base,
          CreateCommit (commitMessage rt) (fresh ?s1) [base],
          UpdateRef (branchRef cfg) (fresh ?s1 + 1)]"
    using nf br b1 by (intro pushFiles_succeeds) simp_all
  obtain s2 where s2: "pushFiles cfg rt files ?s1 = (Inr (), s2)"
    using p by (cases "pushFiles cfg rt files ?s1") auto
  have r: "convertAndPush nc rt cfg s =
       (\<lparr>success = True,
        message = js ''Successfully converted and pushed '' @ showNat (length results)
          @ js '' pages to GitHub'',
        filesProcessed = Some (length results), errors = None\<rparr>, s2)"
    using v g pn c fn s2 fl by (simp add: convertAndPush_def)
  have e: "map fst (map (\<lambda>f. (file_path f, file_content f)) files)
      = map (filePathOf cfg) ?pages"
    using fp by (simp add: comp_def)
  have rq: "\<exists>entries tree c. requests (snd (convertAndPush nc rt cfg s)) = requests s @
           [ReposGet, GetRef (branchRef cfg), CreateTree entries base,
            CreateCommit (commitMessage rt) tree [base], UpdateRef (branchRef cfg) c]
         \<and> map fst entries = map (filePathOf cfg) ?pages"
    using p s2 r e by auto
  have ff: "list_all (\<lambda>r. (case blocks_children_list nc (obj_id r) of
                         Inl e \<Rightarrow> getPageContent nc (obj_id r) = []
                       | Inr blocks \<Rightarrow> True)) results"
    by (simp add: list_all_iff getPageContent_def split: sum.splits)
  from r rq ids ff show ?thesis by simp
qed

theorem convertAndPush_fetch_failure_witness:
  "blocks_children_list exampleNotion (obj_id (exampleObject ''p2'' ''Two'')) = Inl unavailable
   \<and> fst (convertAndPush exampleNotion exampleRuntime exampleConfig exampleGitHub) =
       \<lparr>success = True,
        message = js ''Successfully converted and pushed 3 pages to GitHub'',
        filesProcessed = Some 3, errors = None\<rparr>
   \<and> getPageContent exampleNotion (obj_id (exampleObject ''p2'' ''Two'')) = []"
proof -
  let ?results = "[exampleObject ''p1'' ''One'', exampleObject ''p2'' ''Two'',
            exampleObject ''p3'' ''Three'']"
  have f: "blocks_children_list exampleNotion (obj_id (exampleObject ''p2'' ''Two''))
      = Inl unavailable"
    by (simp add: exampleNotion_def exampleObject_def)
  have props: "list_all (\<lambda>r. obj_properties r \<noteq> None) ?results"
    by (simp add: exampleObject_def)
  have acc: "accessible exampleGitHub" and nf: "\<forall>n. \<not> faulty exampleGitHub n"
    by (simp_all add: exampleGitHub_def)
  have br: "refs exampleGitHub (branchRef exampleConfig) = Some 1"
    by (simp add: exampleGitHub_def exampleConfig_def branchRef_def js_def)
  have bf: "baseFiles exampleGitHub 1 = Some Map.empty"
    by (simp add: exampleGitHub_def baseFiles_def)
  have len: "length ?results = 3"
    by simp
  have three: "showNat 3 = js ''3''"
    by (simp add: showNat.simps js_def)
  note t = convertAndPush_fetch_failure[OF exampleNotion_results _ props exampleNotion_dates
      acc nf br bf]
  have ne: "?results \<noteq> []"
    by simp
  from t[OF ne] have "fst (convertAndPush exampleNotion exampleRuntime exampleConfig exampleGitHub) =
       \<lparr>success = True,
        message = js ''Successfully converted and pushed '' @ showNat (length ?results)
          @ js '' pages to GitHub'',
        filesProcessed = Some (length ?results), errors = None\<rparr>"
    by (rule conjunct1)
  then have "fst (convertAndPush exampleNotion exampleRuntime exampleConfig exampleGitHub) =
       \<lparr>success = True,
        message = js ''Successfully converted and pushed '' @ js ''3'' @ js '' pages to GitHub'',
        filesProcessed = Some 3, errors = None\<rparr>"
    by (simp only: len three)
  then have r: "fst (convertAndPush exampleNotion exampleRuntime exampleConfig exampleGitHub) =
       \<lparr>success = True,
        message = js ''Successfully converted and pushed 3 pages to GitHub'',
        filesProcessed = Some 3, errors = None\<rparr>"
    by (simp add: js_def)
  from f have c: "getPageContent exampleNotion (obj_id (exampleObject ''p2'' ''Two'')) = []"
    by (rule getPageContent_fetch_failed)
  from f r c show ?thesis by blast
qed

text \<open>
  C10. The claim has every title without a letter or digit derive to the empty name, so
  that both sync modes write \<open>.mdx\<close> in the output directory. A title of punctuation
  with a space in it, \<open>?? !!\<close>, derives to \<open>-\<close> and is written to \<open>-.mdx\<close>:
  the space becomes a hyphen, which the closing \<open>trim()\<close> does not remove (the defect of
  C5). Trimming the hyphens would give the empty name. (A title with no letter or digit
  derives to the empty name or to \<open>-\<close>, and to the empty name when it has no white
  space or hyphen either: lemmas \<open>generateFileName_without_alnum\<close> and
  \<open>generateFileName_without_slug_chars\<close>. No error is raised for either name: the path
  is built by \<open>filePathOf\<close> in both modes.)
\<close>

theorem generateFileName_punctuation_title:
  "list_all (\<lambda>c. \<not> isLowerAlnum c) (toLowerCase (js ''?? !!''))
   \<and> generateFileName (js ''?? !!'') = js ''-''
   \<and> trimHyphens (generateFileName (js ''?? !!'')) = []
   \<and> filePathOf exampleConfig (examplePage\<lparr>title := js ''?? !!''\<rparr>)
       = js ''content/posts/-.mdx''"
  by (simp add: slug_eval filePathOf_def exampleConfig_def)

end
